theory Spec2Isabelle
  imports Main "HOL-Library.Sublist"
begin

section \<open>Strings and JavaScript values shared by the handlers\<close>

text \<open>
  A JavaScript string is modelled as a \<^typ>\<open>string\<close>: the list of the bytes of its UTF-8
  encoding. \<open>Buffer.from(text, 'utf-8')\<close> and \<open>buffer.toString('utf-8')\<close> are then the
  identity. A thrown exception is a value of \<open>js_error\<close>; a function that may throw
  returns \<open>js_error + 'a\<close> with \<open>Inl\<close> for the exception.
\<close>

datatype js_error =
    Error string
  | RangeError string
  | SyntaxError string
  | ProviderFault string

text \<open>Truthiness of a string that may be \<open>undefined\<close>: \<open>undefined\<close> and \<open>''\<close> are falsy.\<close>

fun truthy :: "string option \<Rightarrow> bool" where
  "truthy None = False"
| "truthy (Some s) = (s \<noteq> [])"

text \<open>\<open>a || b\<close> on strings that may be \<open>undefined\<close>, with \<open>b\<close> a string.\<close>

fun or_else :: "string option \<Rightarrow> string \<Rightarrow> string" where
  "or_else None d = d"
| "or_else (Some s) d = (if s = [] then d else s)"

definition digit_char :: "nat \<Rightarrow> char" where
  "digit_char n = char_of (48 + n mod 10)"

text \<open>\<open>Number.prototype.toString()\<close> on a non-negative integer.\<close>

fun nat_toString :: "nat \<Rightarrow> string" where
  "nat_toString n = (if n < 10 then [digit_char n] else nat_toString (n div 10) @ [digit_char n])"

declare nat_toString.simps [simp del]

definition int_toString :: "int \<Rightarrow> string" where
  "int_toString i = (if i < 0 then CHR ''-'' # nat_toString (nat (- i)) else nat_toString (nat i))"

text \<open>\<open>s.padStart(n, '0')\<close>.\<close>

definition padStart0 :: "nat \<Rightarrow> string \<Rightarrow> string" where
  "padStart0 n s = replicate (n - length s) (CHR ''0'') @ s"

text \<open>\<open>v.includes(p)\<close>: \<open>p\<close> occurs in \<open>v\<close> as a contiguous substring.\<close>

fun includes_str :: "string \<Rightarrow> string \<Rightarrow> bool" where
  "includes_str [] p = (p = [])"
| "includes_str (c # cs) p = (prefix p (c # cs) \<or> includes_str cs p)"

section \<open>Naming utilities: \<open>rdsDbName\<close>\<close>

definition is_upper :: "char \<Rightarrow> bool" where
  "is_upper c = (65 \<le> (of_char c :: nat) \<and> (of_char c :: nat) \<le> 90)"

definition is_lower :: "char \<Rightarrow> bool" where
  "is_lower c = (97 \<le> (of_char c :: nat) \<and> (of_char c :: nat) \<le> 122)"

definition is_digit :: "char \<Rightarrow> bool" where
  "is_digit c = (48 \<le> (of_char c :: nat) \<and> (of_char c :: nat) \<le> 57)"

text \<open>
  \<open>String.prototype.toLowerCase\<close> on the ASCII letters; every other byte is left as it
  is (and is replaced by an underscore in the next step of \<open>rdsDbName\<close>).
\<close>

definition toLowerCase :: "string \<Rightarrow> string" where
  "toLowerCase s = map (\<lambda>c. if is_upper c then char_of ((of_char c :: nat) + 32) else c) s"

text \<open>The character class \<open>[a-z0-9_]\<close>.\<close>

definition name_char :: "char \<Rightarrow> bool" where
  "name_char c = (is_lower c \<or> is_digit c \<or> c = CHR ''_'')"

text \<open>\<open>s.replace(/[^a-z0-9_]/g, '_')\<close>.\<close>

definition replace_disallowed :: "string \<Rightarrow> string" where
  "replace_disallowed s = map (\<lambda>c. if name_char c then c else CHR ''_'') s"

text \<open>\<open>s.replace(/_+/g, '_')\<close>: every maximal run of underscores becomes one underscore.\<close>

fun collapse_underscores :: "string \<Rightarrow> string" where
  "collapse_underscores (c # d # cs) =
     (if c = CHR ''_'' \<and> d = CHR ''_'' then collapse_underscores (d # cs)
      else c # collapse_underscores (d # cs))"
| "collapse_underscores cs = cs"

text \<open>\<open>/^[a-z]/.test(s)\<close>.\<close>

fun starts_with_letter :: "string \<Rightarrow> bool" where
  "starts_with_letter [] = False"
| "starts_with_letter (c # cs) = is_lower c"

text \<open>\<open>s.replace(/^_+|_+$/g, '')\<close>: leading and trailing underscores are removed.\<close>

definition trim_underscores :: "string \<Rightarrow> string" where
  "trim_underscores s =
     rev (dropWhile (\<lambda>c. c = CHR ''_'') (rev (dropWhile (\<lambda>c. c = CHR ''_'') s)))"

definition rdsDbName :: "string \<Rightarrow> string \<Rightarrow> string" where
  "rdsDbName project environment =
     (let base = toLowerCase (project @ ''_db_'' @ environment);
          cleaned1 = replace_disallowed base;
          cleaned2 = collapse_underscores cleaned1;
          cleaned3 = (if \<not> starts_with_letter cleaned2 then ''db_'' @ cleaned2 else cleaned2);
          cleaned4 = trim_underscores cleaned3
      in take 64 cleaned4)"

section \<open>Holiday calendar: \<open>isJapanHolidayJst\<close>\<close>

text \<open>
  The handlers read the clock (\<open>new Date()\<close>) and \<open>isJapanHolidayJst\<close> converts it to the
  civil date in \<open>Asia/Tokyo\<close>. The model takes the converted date \<open>jst\<close> as its input: the
  four values the function reads from it.
\<close>

record jst_date =
  getFullYear :: int
  getMonth :: nat \<comment> \<open>0 is January\<close>
  getDate :: nat
  getDay :: nat \<comment> \<open>0 is Sunday, 6 is Saturday\<close>

definition holidays :: "string list" where
  "holidays =
    [''2024-01-01'', ''2024-01-08'', ''2024-02-11'', ''2024-02-12'', ''2024-02-23'',
     ''2024-03-20'', ''2024-04-29'', ''2024-05-03'', ''2024-05-04'', ''2024-05-05'',
     ''2024-05-06'', ''2024-07-15'', ''2024-08-11'', ''2024-08-12'', ''2024-09-16'',
     ''2024-09-22'', ''2024-09-23'', ''2024-10-14'', ''2024-11-03'', ''2024-11-04'',
     ''2024-11-23'',
     ''2025-01-01'', ''2025-01-13'', ''2025-02-11'', ''2025-02-23'', ''2025-02-24'',
     ''2025-03-20'', ''2025-04-29'', ''2025-05-03'', ''2025-05-04'', ''2025-05-05'',
     ''2025-05-06'', ''2025-07-21'', ''2025-08-11'', ''2025-09-15'', ''2025-09-23'',
     ''2025-10-13'', ''2025-11-03'', ''2025-11-23'', ''2025-11-24'',
     ''2026-01-01'', ''2026-01-12'', ''2026-02-11'', ''2026-02-23'', ''2026-03-20'',
     ''2026-04-29'', ''2026-05-03'', ''2026-05-04'', ''2026-05-05'', ''2026-07-20'',
     ''2026-08-11'', ''2026-09-21'', ''2026-09-22'', ''2026-09-23'', ''2026-10-12'',
     ''2026-11-03'', ''2026-11-23'']"

definition date_key :: "jst_date \<Rightarrow> string" where
  "date_key jst =
     (let y = getFullYear jst;
          m = padStart0 2 (nat_toString (getMonth jst + 1));
          d = padStart0 2 (nat_toString (getDate jst))
      in int_toString y @ ''-'' @ m @ ''-'' @ d)"

definition isJapanHolidayJst :: "jst_date \<Rightarrow> bool" where
  "isJapanHolidayJst jst =
     (let key = date_key jst;
          dow = getDay jst
      in if dow = 0 \<or> dow = 6 then True else List.member holidays key)"

section \<open>Business-hours schedulers\<close>

text \<open>
  What a scheduler handler returns: \<open>{ skipped: true }\<close> (\<open>Skipped\<close>) or \<open>{ ok: b }\<close>
  (\<open>OkFlag b\<close>). A handler run is
  the list of the calls it sent to the provider, in order, and its outcome: the returned
  object, or the exception that rejected the invocation.
\<close>

datatype sched_result = Skipped | OkFlag bool

type_synonym 'c run = "'c list \<times> (js_error + sched_result)"

subsection \<open>ECS services\<close>

record ecs_env =
  CLUSTER :: string
  FRONTEND_SERVICE :: string
  BACKEND_SERVICE :: string
  JOB_SERVICE :: string
  DESIRED_UP :: int

record UpdateServiceCommand =
  cluster :: string
  service :: string
  desiredCount :: int

text \<open>
  \<open>Promise.all\<close> over an array of sends: every send of the array is issued, and the
  promise rejects when one of them does (the model takes the first rejection in array
  order). The provider \<open>send\<close> answers a command with \<open>None\<close> (accepted) or an error.
\<close>

fun first_rejection :: "js_error option list \<Rightarrow> js_error option" where
  "first_rejection [] = None"
| "first_rejection (None # rs) = first_rejection rs"
| "first_rejection (Some e # rs) = Some e"

definition promise_all :: "('c \<Rightarrow> js_error option) \<Rightarrow> 'c list \<Rightarrow> js_error option" where
  "promise_all send cmds = first_rejection (map send cmds)"

definition scale_commands :: "ecs_env \<Rightarrow> int \<Rightarrow> UpdateServiceCommand list" where
  "scale_commands env n =
     [\<lparr>cluster = CLUSTER env, service = FRONTEND_SERVICE env, desiredCount = n\<rparr>,
      \<lparr>cluster = CLUSTER env, service = BACKEND_SERVICE env, desiredCount = n\<rparr>,
      \<lparr>cluster = CLUSTER env, service = JOB_SERVICE env, desiredCount = n\<rparr>]"

definition ecs_handler ::
  "ecs_env \<Rightarrow> (UpdateServiceCommand \<Rightarrow> js_error option) \<Rightarrow> jst_date \<Rightarrow> string
     \<Rightarrow> UpdateServiceCommand run" where
  "ecs_handler env send now action =
     (let isHoliday = isJapanHolidayJst now in
      if action = ''up'' then
        (if isHoliday then ([], Inr Skipped)
         else (case promise_all send (scale_commands env (DESIRED_UP env)) of
                 Some e \<Rightarrow> (scale_commands env (DESIRED_UP env), Inl e)
               | None \<Rightarrow> (scale_commands env (DESIRED_UP env), Inr (OkFlag True))))
      else if action = ''down'' then
        (case promise_all send (scale_commands env 0) of
           Some e \<Rightarrow> (scale_commands env 0, Inl e)
         | None \<Rightarrow> (scale_commands env 0, Inr (OkFlag True)))
      else ([], Inr (OkFlag False)))"

subsection \<open>RDS instance\<close>

datatype rds_command = StartDBInstanceCommand string | StopDBInstanceCommand string

definition rds_handler ::
  "string \<Rightarrow> (rds_command \<Rightarrow> js_error option) \<Rightarrow> jst_date \<Rightarrow> string \<Rightarrow> rds_command run" where
  "rds_handler DB_INSTANCE_IDENTIFIER send now action =
     (let isHoliday = isJapanHolidayJst now in
      if action = ''start'' then
        (if isHoliday then ([], Inr Skipped)
         else (case send (StartDBInstanceCommand DB_INSTANCE_IDENTIFIER) of
                 Some e \<Rightarrow> ([StartDBInstanceCommand DB_INSTANCE_IDENTIFIER], Inl e)
               | None \<Rightarrow> ([StartDBInstanceCommand DB_INSTANCE_IDENTIFIER], Inr (OkFlag True))))
      else if action = ''stop'' then
        (case send (StopDBInstanceCommand DB_INSTANCE_IDENTIFIER) of
           Some e \<Rightarrow> ([StopDBInstanceCommand DB_INSTANCE_IDENTIFIER], Inl e)
         | None \<Rightarrow> ([StopDBInstanceCommand DB_INSTANCE_IDENTIFIER], Inr (OkFlag True)))
      else ([], Inr (OkFlag False)))"

subsection \<open>EC2 instance (bastion) with DNS update\<close>

record ec2_env =
  INSTANCE_ID :: string
  HOSTED_ZONE_ID :: string
  RECORD_NAME :: string

datatype ec2_command =
    DescribeInstancesCommand string
  | StartInstancesCommand string
  | StopInstancesCommand string
  | ChangeResourceRecordSetsCommand string string string
    \<comment> \<open>hosted zone, record name, address: the UPSERT of one A record with TTL 60\<close>

text \<open>
  What the handler reads from a \<open>DescribeInstances\<close> response:
  \<open>Reservations?.[0]?.Instances?.[0]\<close>'s \<open>State?.Name\<close> and \<open>PublicIpAddress\<close>.
\<close>

record instance_view =
  state_name :: "string option"
  public_ip :: "string option"

text \<open>
  The provider as the handler meets it: the answer to the \<open>k\<close>-th \<open>DescribeInstances\<close>
  call of the invocation (the instance changes while the handler polls), and the answers
  to \<open>StartInstances\<close>, \<open>StopInstances\<close> and \<open>ChangeResourceRecordSets\<close>.
\<close>

record ec2_provider =
  describe :: "nat \<Rightarrow> js_error + instance_view"
  start_instances :: "js_error option"
  stop_instances :: "js_error option"
  change_record_sets :: "js_error option"

text \<open>
  The polling loop \<open>for (let i = 0; i < maxAttempts; i++)\<close>, as a recursion on the number
  of attempts left; \<open>k\<close> numbers the \<open>DescribeInstances\<close> call. The 15 s delay between
  attempts is not modelled. The result is the calls sent and the exception, if any.
\<close>

fun poll_dns :: "ec2_env \<Rightarrow> ec2_provider \<Rightarrow> nat \<Rightarrow> nat \<Rightarrow> ec2_command list \<times> js_error option" where
  "poll_dns env p 0 k = ([], None)"
| "poll_dns env p (Suc n) k =
     (case describe p k of
        Inl e \<Rightarrow> ([DescribeInstancesCommand (INSTANCE_ID env)], Some e)
      | Inr res \<Rightarrow>
          (if truthy (public_ip res) then
             ([DescribeInstancesCommand (INSTANCE_ID env),
               ChangeResourceRecordSetsCommand (HOSTED_ZONE_ID env) (RECORD_NAME env)
                 (the (public_ip res))],
              change_record_sets p)
           else
             (let (calls, err) = poll_dns env p n (Suc k)
              in (DescribeInstancesCommand (INSTANCE_ID env) # calls, err))))"

definition ec2_handler :: "ec2_env \<Rightarrow> ec2_provider \<Rightarrow> jst_date \<Rightarrow> string \<Rightarrow> ec2_command run" where
  "ec2_handler env p now action =
     (let isHoliday = isJapanHolidayJst now in
      if action = ''start'' then
        (case describe p 0 of
           Inl e \<Rightarrow> ([DescribeInstancesCommand (INSTANCE_ID env)], Inl e)
         | Inr inst0 \<Rightarrow>
            (let state0 = state_name inst0;
                 isRunning = (state0 = Some ''running'');
                 isPending = (state0 = Some ''pending'');
                 skipStartDueToHoliday = (isHoliday \<and> \<not> isRunning \<and> \<not> isPending);
                 calls1 = DescribeInstancesCommand (INSTANCE_ID env) #
                   (if \<not> skipStartDueToHoliday \<and> \<not> isRunning \<and> \<not> isPending
                    then (case start_instances p of
                            Some e \<Rightarrow> [StartInstancesCommand (INSTANCE_ID env)] \<comment> \<open>caught and logged\<close>
                          | None \<Rightarrow> [StartInstancesCommand (INSTANCE_ID env)])
                    else []);
                 (calls2, err) =
                   (if HOSTED_ZONE_ID env \<noteq> [] \<and> RECORD_NAME env \<noteq> [] then
                      (if skipStartDueToHoliday \<and> \<not> isRunning \<and> \<not> isPending then ([], None)
                       else poll_dns env p 20 1)
                    else ([], None))
             in (case err of
                   Some e \<Rightarrow> (calls1 @ calls2, Inl e)
                 | None \<Rightarrow>
                     (calls1 @ calls2,
                      Inr (if skipStartDueToHoliday \<and> \<not> isRunning \<and> \<not> isPending
                           then Skipped else OkFlag True)))))
      else if action = ''stop'' then
        (case stop_instances p of
           Some e \<Rightarrow> ([StopInstancesCommand (INSTANCE_ID env)], Inr (OkFlag True))
             \<comment> \<open>caught and logged\<close>
         | None \<Rightarrow> ([StopInstancesCommand (INSTANCE_ID env)], Inr (OkFlag True)))
      else ([], Inr (OkFlag False)))"

section \<open>Single-architecture image guard\<close>

record ecr_event =
  RequestType :: string
  RepositoryName :: string
  ImageTag :: string

text \<open>What the guard reads from an element of \<open>imageDetails\<close>.\<close>

record image_detail =
  artifactMediaType :: "string option"
  imageManifestMediaType :: "string option"

datatype ecr_command = DescribeImagesCommand string string \<comment> \<open>repository name, image tag\<close>

text \<open>\<open>res.imageDetails?.[0]\<close>.\<close>

fun first_detail :: "image_detail list option \<Rightarrow> image_detail option" where
  "first_detail None = None"
| "first_detail (Some []) = None"
| "first_detail (Some (d # ds)) = Some d"

definition isIndex :: "string option \<Rightarrow> bool" where
  "isIndex v = (truthy v \<and> (includes_str (the v) ''manifest.list'' \<or> includes_str (the v) ''image.index''))"

text \<open>
  \<open>${artifactType || manifestType}\<close> inside a template string: the first truthy operand,
  else the second one, and \<open>undefined\<close> prints as the word.
\<close>

definition template_or :: "string option \<Rightarrow> string option \<Rightarrow> string" where
  "template_or a b = (if truthy a then the a else (case b of None \<Rightarrow> ''undefined'' | Some t \<Rightarrow> t))"

definition tag_not_found_message :: "string \<Rightarrow> string \<Rightarrow> string" where
  "tag_not_found_message repo tag =
     ''ECR tag not found: '' @ repo @ '':'' @ tag @ ''. Push the image before deploy.''"

definition multi_arch_message :: "string \<Rightarrow> string \<Rightarrow> string \<Rightarrow> string" where
  "multi_arch_message repo tag media =
     ''Repository '' @ [CHR 0x27] @ repo @ [CHR 0x27] @ '' tag '' @ [CHR 0x27] @ tag @ [CHR 0x27]
       @ '' is a multi-arch Image Index ('' @ media
       @ ''). Please push a single-arch (linux/amd64) image.''"

text \<open>
  The handler's run: the calls sent to the registry and either the thrown error or the
  returned \<open>PhysicalResourceId\<close>. \<open>send\<close> is the registry's answer to \<open>DescribeImages\<close>:
  an error, or the response's \<open>imageDetails\<close> (which may be absent).
\<close>

definition ecr_handler ::
  "(ecr_command \<Rightarrow> js_error + image_detail list option) \<Rightarrow> ecr_event
     \<Rightarrow> ecr_command list \<times> (js_error + string)" where
  "ecr_handler send event =
     (if RequestType event = ''Delete'' then ([], Inr ''ecr-validate-single-arch'')
      else
        (let repo = RepositoryName event;
             tag = or_else (Some (ImageTag event)) ''latest''
         in (case send (DescribeImagesCommand repo tag) of
               Inl e \<Rightarrow> ([DescribeImagesCommand repo tag], Inl e)
             | Inr imageDetails \<Rightarrow>
                 (case first_detail imageDetails of
                    None \<Rightarrow> ([DescribeImagesCommand repo tag], Inl (Error (tag_not_found_message repo tag)))
                  | Some details \<Rightarrow>
                      (let artifactType = artifactMediaType details;
                           manifestType = imageManifestMediaType details
                       in if isIndex artifactType \<or> isIndex manifestType then
                            ([DescribeImagesCommand repo tag],
                             Inl (Error (multi_arch_message repo tag (template_or artifactType manifestType))))
                          else ([DescribeImagesCommand repo tag], Inr ''ecr-validate-single-arch''))))))"

section \<open>Database user bootstrap\<close>

record db_event =
  db_RequestType :: "string option" \<comment> \<open>\<open>event?.RequestType\<close>\<close>
  PhysicalResourceId :: "string option" \<comment> \<open>\<open>event?.PhysicalResourceId\<close>\<close>

type_synonym process_env = "string \<rightharpoonup> string"

record SecretJson =
  username :: "string option"
  password :: "string option"

record conn_opts =
  host :: string
  port :: string \<comment> \<open>the text of \<open>DB_PORT\<close>, which the handler passes through \<open>Number\<close>\<close>
  user :: string
  conn_password :: string
  database :: string

text \<open>
  The statements \<open>ensureUser\<close> sends, and \<open>sql_text\<close>: the text and the \<open>?\<close> parameters
  that \<open>conn.query\<close> receives for each.
\<close>

datatype sql_stmt =
    CreateUserIfNotExists string string \<comment> \<open>user, password\<close>
  | AlterUserIdentifiedBy string string \<comment> \<open>user, password\<close>
  | GrantAllPrivileges string string \<comment> \<open>database, user\<close>
  | RevokeDrop string string \<comment> \<open>database, user\<close>
  | GrantSelect string string \<comment> \<open>database, user\<close>
  | FlushPrivileges

definition account :: "string \<Rightarrow> string" where
  "account u = ''`'' @ u @ ''`@'' @ [CHR 0x27, CHR ''%'', CHR 0x27]"

fun sql_text :: "sql_stmt \<Rightarrow> string \<times> string list" where
  "sql_text (CreateUserIfNotExists u pw) =
     (''CREATE USER IF NOT EXISTS '' @ account u @ '' IDENTIFIED BY ?'', [pw])"
| "sql_text (AlterUserIdentifiedBy u pw) =
     (''ALTER USER '' @ account u @ '' IDENTIFIED BY ?'', [pw])"
| "sql_text (GrantAllPrivileges db u) =
     (''GRANT ALL PRIVILEGES ON `'' @ db @ ''`.* TO '' @ account u, [])"
| "sql_text (RevokeDrop db u) =
     (''REVOKE DROP ON `'' @ db @ ''`.* FROM '' @ account u, [])"
| "sql_text (GrantSelect db u) =
     (''GRANT SELECT ON `'' @ db @ ''`.* TO '' @ account u, [])"
| "sql_text FlushPrivileges = (''FLUSH PRIVILEGES'', [])"

datatype db_action =
    GetSecretValue string
  | CreateConnection conn_opts
  | Query sql_stmt
  | ConnEnd

text \<open>
  The collaborators of the bootstrap: the secret store (the result of \<open>getSecretJson\<close> for
  an ARN), the \<open>i\<close>-th attempt to connect, the \<open>k\<close>-th query of the connection, and
  \<open>conn.end()\<close>. \<open>None\<close> is success.
\<close>

record db_provider =
  getSecretJson :: "string \<Rightarrow> js_error + SecretJson"
  createConnection :: "nat \<Rightarrow> conn_opts \<Rightarrow> js_error option"
  conn_query :: "nat \<Rightarrow> string \<times> string list \<Rightarrow> js_error option"
  conn_end :: "js_error option"

text \<open>
  \<open>connectWithRetry\<close>: the loop \<open>for (let i = 0; i < max; i++)\<close> as a recursion on the
  attempts left, \<open>i\<close> the attempt's number and \<open>lastErr\<close> the last error caught. The 10 s
  wait between attempts is not modelled. \<open>None\<close> is a connection; \<open>Some e\<close> is the error
  thrown after the last attempt.
\<close>

fun connect_loop ::
  "db_provider \<Rightarrow> conn_opts \<Rightarrow> nat \<Rightarrow> nat \<Rightarrow> js_error \<Rightarrow> db_action list \<times> js_error option" where
  "connect_loop p opts 0 i lastErr = ([], Some lastErr)"
| "connect_loop p opts (Suc n) i lastErr =
     (case createConnection p i opts of
        None \<Rightarrow> ([CreateConnection opts], None)
      | Some e \<Rightarrow>
          (let (calls, r) = connect_loop p opts n (Suc i) e
           in (CreateConnection opts # calls, r)))"

definition connectWithRetry :: "db_provider \<Rightarrow> conn_opts \<Rightarrow> db_action list \<times> js_error option" where
  "connectWithRetry p opts = connect_loop p opts 12 0 (Error ''undefined'')"

text \<open>
  Queries sent one after the other, each awaited; the first rejection stops the sequence.
  \<open>k\<close> is the number of the next query on the connection.
\<close>

fun run_queries :: "db_provider \<Rightarrow> nat \<Rightarrow> sql_stmt list \<Rightarrow> db_action list \<times> js_error option" where
  "run_queries p k [] = ([], None)"
| "run_queries p k (st # sts) =
     (case conn_query p k (sql_text st) of
        Some e \<Rightarrow> ([Query st], Some e)
      | None \<Rightarrow> (let (calls, r) = run_queries p (Suc k) sts in (Query st # calls, r)))"

definition ensureUser_statements :: "string \<Rightarrow> string \<Rightarrow> string \<Rightarrow> bool \<Rightarrow> sql_stmt list" where
  "ensureUser_statements u pw dbName isApp =
     [CreateUserIfNotExists u pw, AlterUserIdentifiedBy u pw]
     @ (if isApp then [GrantAllPrivileges dbName u, RevokeDrop dbName u]
        else [GrantSelect dbName u])
     @ [FlushPrivileges]"

definition ensureUser ::
  "db_provider \<Rightarrow> nat \<Rightarrow> string \<Rightarrow> string \<Rightarrow> string \<Rightarrow> bool \<Rightarrow> db_action list \<times> js_error option" where
  "ensureUser p k u pw dbName isApp = run_queries p k (ensureUser_statements u pw dbName isApp)"

text \<open>
  The body of \<open>try { ensureUser(app); ensureUser(readonly) } finally { conn.end() }\<close>:
  \<open>conn.end()\<close> runs in every case, and an error it throws replaces the pending one.
\<close>

definition converge_users ::
  "db_provider \<Rightarrow> SecretJson \<Rightarrow> SecretJson \<Rightarrow> string \<Rightarrow> db_action list \<times> js_error option" where
  "converge_users p appuser readonly dbName =
     (let (calls1, r1) = ensureUser p 0 (the (username appuser)) (the (password appuser)) dbName True;
          (calls2, r2) =
            (case r1 of
               Some e \<Rightarrow> ([], Some e)
             | None \<Rightarrow> ensureUser p (length calls1) (the (username readonly)) (the (password readonly))
                         dbName False)
      in (calls1 @ calls2 @ [ConnEnd],
          (case conn_end p of Some e \<Rightarrow> Some e | None \<Rightarrow> r2)))"

definition fallbackId :: "process_env \<Rightarrow> string" where
  "fallbackId env =
     (if truthy (env ''DB_HOST'') \<and> truthy (env ''DB_NAME'')
      then the (env ''DB_HOST'') @ '':'' @ the (env ''DB_NAME'') else ''db-init'')"

definition db_init_handler ::
  "process_env \<Rightarrow> db_provider \<Rightarrow> db_event \<Rightarrow> db_action list \<times> (js_error + string)" where
  "db_init_handler env p event =
     (let reqType = or_else (db_RequestType event) ''Create'' in
      if reqType = ''Delete'' then
        (let existingId = PhysicalResourceId event
         in ([], Inr (or_else existingId (fallbackId env))))
      else if \<not> truthy (env ''DB_HOST'') \<or> \<not> truthy (env ''DB_PORT'') \<or> \<not> truthy (env ''DB_NAME'')
              \<or> \<not> truthy (env ''MASTER_SECRET_ARN'') \<or> \<not> truthy (env ''APPUSER_SECRET_ARN'')
              \<or> \<not> truthy (env ''READONLY_SECRET_ARN'')
      then ([], Inl (Error ''Missing required environment variables''))
      else
        (let DB_HOST = the (env ''DB_HOST''); DB_PORT = the (env ''DB_PORT'');
             DB_NAME = the (env ''DB_NAME'');
             MASTER_SECRET_ARN = the (env ''MASTER_SECRET_ARN'');
             APPUSER_SECRET_ARN = the (env ''APPUSER_SECRET_ARN'');
             READONLY_SECRET_ARN = the (env ''READONLY_SECRET_ARN'');
             gets = [GetSecretValue MASTER_SECRET_ARN, GetSecretValue APPUSER_SECRET_ARN,
                     GetSecretValue READONLY_SECRET_ARN]
         in (case getSecretJson p MASTER_SECRET_ARN of
               Inl e \<Rightarrow> (take 1 gets, Inl e)
             | Inr master \<Rightarrow>
           (case getSecretJson p APPUSER_SECRET_ARN of
               Inl e \<Rightarrow> (take 2 gets, Inl e)
             | Inr appuser \<Rightarrow>
           (case getSecretJson p READONLY_SECRET_ARN of
               Inl e \<Rightarrow> (gets, Inl e)
             | Inr readonly \<Rightarrow>
                 if \<not> truthy (username master) \<or> \<not> truthy (password master)
                 then (gets, Inl (Error ''Master secret missing username/password''))
                 else if \<not> truthy (username appuser) \<or> \<not> truthy (password appuser)
                 then (gets, Inl (Error ''AppUser secret missing username/password''))
                 else if \<not> truthy (username readonly) \<or> \<not> truthy (password readonly)
                 then (gets, Inl (Error ''ReadOnlyUser secret missing username/password''))
                 else
                   (let opts = \<lparr>host = DB_HOST, port = DB_PORT, user = the (username master),
                               conn_password = the (password master), database = DB_NAME\<rparr>;
                        (calls_c, rc) = connectWithRetry p opts
                    in (case rc of
                          Some e \<Rightarrow> (gets @ calls_c, Inl e)
                        | None \<Rightarrow>
                            (let (calls_u, ru) = converge_users p appuser readonly DB_NAME
                             in (case ru of
                                   Some e \<Rightarrow> (gets @ calls_c @ calls_u, Inl e)
                                 | None \<Rightarrow>
                                     (gets @ calls_c @ calls_u,
                                      Inr (DB_HOST @ '':'' @ DB_NAME)))))))))))"

section \<open>Log enrichment pipeline (Firehose transform)\<close>

subsection \<open>Runtime functions: base64, JSON text, dates, trimming\<close>

text \<open>
  Base64 with the standard alphabet, as \<open>buffer.toString('base64')\<close> writes it: every
  three bytes give four characters, and a last group of one or two bytes is padded
  with \<open>=\<close>.
\<close>

definition b64_char :: "nat \<Rightarrow> char" where
  "b64_char n =
     (let k = n mod 64 in
      if k < 26 then char_of (65 + k) \<comment> \<open>\<open>A\<close> to \<open>Z\<close>\<close>
      else if k < 52 then char_of (71 + k) \<comment> \<open>\<open>a\<close> to \<open>z\<close>\<close>
      else if k < 62 then char_of (k - 4) \<comment> \<open>\<open>0\<close> to \<open>9\<close>\<close>
      else if k = 62 then CHR ''+'' else CHR ''/'')"

text \<open>Three bytes as four 6-bit values.\<close>

definition quad :: "nat \<Rightarrow> nat \<Rightarrow> nat \<Rightarrow> nat list" where
  "quad x y z = [x div 4, (x mod 4) * 16 + y div 16, (y mod 16) * 4 + z div 64, z mod 64]"

fun sextets :: "string \<Rightarrow> nat list" where
  "sextets (a # b # c # rest) = quad (of_char a) (of_char b) (of_char c) @ sextets rest"
| "sextets [a, b] = take 3 (quad (of_char a) (of_char b) 0)"
| "sextets [a] = take 2 (quad (of_char a) 0 0)"
| "sextets [] = []"

definition toBase64 :: "string \<Rightarrow> string" where
  "toBase64 bytes =
     map b64_char (sextets bytes) @ replicate ((3 - length bytes mod 3) mod 3) (CHR ''='')"

text \<open>
  \<open>Buffer.from(s, 'base64')\<close> is lenient: it reads up to the first \<open>=\<close>, skips every
  character outside the alphabet (the URL-safe \<open>-\<close> and \<open>_\<close> count as \<open>+\<close> and \<open>/\<close>), and
  drops the bits of an incomplete last group.
\<close>

definition unbase64 :: "char \<Rightarrow> nat option" where
  "unbase64 c =
     (let n = (of_char c :: nat) in
      if 65 \<le> n \<and> n \<le> 90 then Some (n - 65)
      else if 97 \<le> n \<and> n \<le> 122 then Some (n - 71)
      else if 48 \<le> n \<and> n \<le> 57 then Some (n + 4)
      else if c = CHR ''+'' \<or> c = CHR ''-'' then Some 62
      else if c = CHR ''/'' \<or> c = CHR ''_'' then Some 63
      else None)"

fun unsextets :: "nat list \<Rightarrow> string" where
  "unsextets (a # b # c # d # rest) =
     [char_of (a * 4 + b div 16), char_of ((b mod 16) * 16 + c div 4), char_of ((c mod 4) * 64 + d)]
       @ unsextets rest"
| "unsextets [a, b, c] = [char_of (a * 4 + b div 16), char_of ((b mod 16) * 16 + c div 4)]"
| "unsextets [a, b] = [char_of (a * 4 + b div 16)]"
| "unsextets _ = []"

definition fromBase64 :: "string \<Rightarrow> string" where
  "fromBase64 s = unsextets (List.map_filter unbase64 (takeWhile (\<lambda>c. c \<noteq> CHR ''='') s))"

text \<open>
  The values \<open>JSON.parse\<close> returns. An object is the list of its properties in
  enumeration order. The type \<open>'n\<close> of numbers is left open: the transform never
  computes with a number (a message that is a number is skipped, a number inside an
  object is copied), and \<open>JSON.stringify\<close> writes a number as \<open>Number.prototype.toString\<close>
  does, a library function that the model takes as given (\<open>num\<close> below).
\<close>

datatype 'n json =
    JNull
  | JBool bool
  | JNum 'n
  | JStr string
  | JArr "'n json list"
  | JObj "(string \<times> 'n json) list"

text \<open>\<open>array.join(sep)\<close> on strings.\<close>

fun join :: "string \<Rightarrow> string list \<Rightarrow> string" where
  "join sep [] = []"
| "join sep [x] = x"
| "join sep (x # y # ys) = x @ sep @ join sep (y # ys)"

definition hex_digit :: "nat \<Rightarrow> char" where
  "hex_digit n = ''0123456789abcdef'' ! (n mod 16)"

text \<open>\<open>JSON.stringify\<close> on a string (\<open>QuoteJSONString\<close>) and on a value.\<close>

definition quote_char :: "char \<Rightarrow> string" where
  "quote_char c =
     (let n = (of_char c :: nat) in
      if n = 0x22 then [CHR 0x5C, CHR 0x22]
      else if n = 0x5C then [CHR 0x5C, CHR 0x5C]
      else if n = 8 then [CHR 0x5C, CHR ''b'']
      else if n = 12 then [CHR 0x5C, CHR ''f'']
      else if n = 10 then [CHR 0x5C, CHR ''n'']
      else if n = 13 then [CHR 0x5C, CHR ''r'']
      else if n = 9 then [CHR 0x5C, CHR ''t'']
      else if n < 32 then [CHR 0x5C, CHR ''u'', CHR ''0'', CHR ''0'', hex_digit (n div 16), hex_digit n]
      else [c])"

definition quoteJSONString :: "string \<Rightarrow> string" where
  "quoteJSONString s = [CHR 0x22] @ concat (map quote_char s) @ [CHR 0x22]"

fun JSON_stringify :: "('n \<Rightarrow> string) \<Rightarrow> 'n json \<Rightarrow> string" where
  "JSON_stringify num JNull = ''null''"
| "JSON_stringify num (JBool b) = (if b then ''true'' else ''false'')"
| "JSON_stringify num (JNum n) = num n"
| "JSON_stringify num (JStr s) = quoteJSONString s"
| "JSON_stringify num (JArr vs) = ''['' @ join '','' (map (JSON_stringify num) vs) @ '']''"
| "JSON_stringify num (JObj ps) =
     ''{'' @ join '',''
       (map (\<lambda>kv. quoteJSONString (fst kv) @ '':'' @ JSON_stringify num (snd kv)) ps) @ ''}''"

text \<open>
  \<open>new Date(t).toISOString()\<close> for an integer \<open>t\<close> of milliseconds since the epoch: a
  \<open>RangeError\<close> outside \<open>\<plusminus>8.64e15\<close>, else the UTC date and time. \<open>civil_from_days\<close> turns
  a day number (0 is 1970-01-01) into year, month and day of the proleptic Gregorian
  calendar.
\<close>

definition civil_from_days :: "int \<Rightarrow> int \<times> int \<times> int" where
  "civil_from_days days =
     (let z = days + 719468;
          era = z div 146097;
          doe = z mod 146097;
          yoe = (doe - doe div 1460 + doe div 36524 - doe div 146096) div 365;
          y = yoe + era * 400;
          doy = doe - (365 * yoe + yoe div 4 - yoe div 100);
          mp = (5 * doy + 2) div 153;
          d = doy - (153 * mp + 2) div 5 + 1;
          m = (if mp < 10 then mp + 3 else mp - 9)
      in (if m \<le> 2 then y + 1 else y, m, d))"

definition pad_int :: "nat \<Rightarrow> int \<Rightarrow> string" where
  "pad_int n i = padStart0 n (nat_toString (nat i))"

definition year_text :: "int \<Rightarrow> string" where
  "year_text y =
     (if 0 \<le> y \<and> y \<le> 9999 then pad_int 4 y
      else (if y < 0 then ''-'' else ''+'') @ pad_int 6 (abs y))"

definition toISOString :: "int \<Rightarrow> js_error + string" where
  "toISOString t =
     (if abs t > 8640000000000000 then Inl (RangeError ''Invalid time value'')
      else
        (let (y, m, d) = civil_from_days (t div 86400000);
             ms = t mod 86400000
         in Inr (year_text y @ ''-'' @ pad_int 2 m @ ''-'' @ pad_int 2 d @ ''T''
                 @ pad_int 2 (ms div 3600000) @ '':'' @ pad_int 2 (ms div 60000 mod 60) @ '':''
                 @ pad_int 2 (ms div 1000 mod 60) @ ''.'' @ pad_int 3 (ms mod 1000) @ ''Z'')))"

text \<open>
  \<open>String.prototype.trim\<close> removes white space and line terminators at both ends: the
  code points U+0009 to U+000D, U+0020, U+00A0, U+1680, U+2000 to U+200A, U+2028, U+2029,
  U+202F, U+205F, U+3000 and U+FEFF. On the UTF-8 bytes these are the one-byte, two-byte
  and three-byte sequences below.
\<close>

definition is_space1 :: "char \<Rightarrow> bool" where
  "is_space1 a = ((of_char a :: nat) \<in> {0x09, 0x0A, 0x0B, 0x0C, 0x0D, 0x20})"

definition is_space2 :: "char \<Rightarrow> char \<Rightarrow> bool" where
  "is_space2 a b = ((of_char a :: nat) = 0xC2 \<and> (of_char b :: nat) = 0xA0)"

definition is_space3 :: "char \<Rightarrow> char \<Rightarrow> char \<Rightarrow> bool" where
  "is_space3 a b c =
     (let x = (of_char a :: nat); y = (of_char b :: nat); z = (of_char c :: nat) in
      (x = 0xE1 \<and> y = 0x9A \<and> z = 0x80)
      \<or> (x = 0xE2 \<and> y = 0x80 \<and> ((0x80 \<le> z \<and> z \<le> 0x8A) \<or> z = 0xA8 \<or> z = 0xA9 \<or> z = 0xAF))
      \<or> (x = 0xE2 \<and> y = 0x81 \<and> z = 0x9F)
      \<or> (x = 0xE3 \<and> y = 0x80 \<and> z = 0x80)
      \<or> (x = 0xEF \<and> y = 0xBB \<and> z = 0xBF))"

fun trim_start :: "string \<Rightarrow> string" where
  "trim_start (a # b # c # rest) =
     (if is_space1 a then trim_start (b # c # rest)
      else if is_space2 a b then trim_start (c # rest)
      else if is_space3 a b c then trim_start rest
      else a # b # c # rest)"
| "trim_start [a, b] =
     (if is_space1 a then trim_start [b] else if is_space2 a b then [] else [a, b])"
| "trim_start [a] = (if is_space1 a then [] else [a])"
| "trim_start [] = []"

text \<open>The same from the end, on the reversed string.\<close>

fun trim_end_rev :: "string \<Rightarrow> string" where
  "trim_end_rev (c # b # a # rest) =
     (if is_space1 c then trim_end_rev (b # a # rest)
      else if is_space2 b c then trim_end_rev (a # rest)
      else if is_space3 a b c then trim_end_rev rest
      else c # b # a # rest)"
| "trim_end_rev [c, b] =
     (if is_space1 c then trim_end_rev [b] else if is_space2 b c then [] else [c, b])"
| "trim_end_rev [c] = (if is_space1 c then [] else [c])"
| "trim_end_rev [] = []"

definition trim :: "string \<Rightarrow> string" where
  "trim s = rev (trim_end_rev (rev (trim_start s)))"

subsection \<open>The transform\<close>

record firehose_record =
  recordId :: string
  data :: string

record FirehoseTransformationEventRecord = firehose_record +
  approximateArrivalTimestamp :: int

datatype FirehoseRecordResult = Ok | Dropped | ProcessingFailed

record FirehoseTransformationResultRecord = firehose_record +
  result :: FirehoseRecordResult

record FirehoseTransformationEvent =
  invocationId :: string
  deliveryStreamArn :: string
  region :: string
  records :: "FirehoseTransformationEventRecord list"

record logEvent =
  event_id :: string
  timestamp :: int
  message :: "string option" \<comment> \<open>read with \<open>logEvent.message?.trim()\<close>\<close>

record CloudWatchLogsFirehosePayload =
  messageType :: string
  owner :: string
  logGroup :: string
  logStream :: string
  subscriptionFilters :: "string list option"
  logEvents :: "logEvent list option" \<comment> \<open>read with \<open>parsed.logEvents ?? []\<close>\<close>

text \<open>
  The library functions the transform calls and the model takes as given: \<open>gunzipSync\<close>,
  \<open>JSON.parse\<close> of the decompressed envelope (with the cast to the payload type),
  \<open>JSON.parse\<close> of a message, and \<open>Number.prototype.toString\<close>, by which
  \<open>JSON.stringify\<close> writes a number.
\<close>

record 'n runtime =
  gunzipSync :: "string \<Rightarrow> js_error + string"
  parse_payload :: "string \<Rightarrow> js_error + CloudWatchLogsFirehosePayload"
  JSON_parse :: "string \<Rightarrow> js_error + 'n json"
  number_toString :: "'n \<Rightarrow> string"

definition encodeRecords :: "'n runtime \<Rightarrow> 'n json list \<Rightarrow> string" where
  "encodeRecords rt values =
     (let text = join [CHR 0x0A] (map (JSON_stringify (number_toString rt)) values) @ [CHR 0x0A]
      in toBase64 text)"

definition buildErrorRecord ::
  "FirehoseTransformationEventRecord \<Rightarrow> FirehoseRecordResult \<Rightarrow> FirehoseTransformationResultRecord" where
  "buildErrorRecord record res = \<lparr>recordId = recordId record, data = data record, result = res\<rparr>"

text \<open>
  Setting a property of an object: an existing key keeps its place and takes the new
  value, a new key goes last. \<open>spread\<close> is \<open>{ ...v }\<close>: the own properties of \<open>v\<close> (an
  array's are its elements under their indices), defined one after the other.
\<close>

fun set_prop :: "string \<Rightarrow> 'n json \<Rightarrow> (string \<times> 'n json) list \<Rightarrow> (string \<times> 'n json) list" where
  "set_prop k v [] = [(k, v)]"
| "set_prop k v (p # ps) = (if fst p = k then (k, v) # ps else p # set_prop k v ps)"

fun own_props :: "'n json \<Rightarrow> (string \<times> 'n json) list" where
  "own_props (JObj ps) = ps"
| "own_props (JArr vs) = zip (map nat_toString [0..<length vs]) vs"
| "own_props _ = []"

definition spread :: "'n json \<Rightarrow> (string \<times> 'n json) list" where
  "spread v = fold (\<lambda>kv. set_prop (fst kv) (snd kv)) (own_props v) []"

text \<open>\<open>!structured || typeof structured !== 'object'\<close> is false: an object or an array.\<close>

fun object_like :: "'n json \<Rightarrow> bool" where
  "object_like (JObj ps) = True"
| "object_like (JArr vs) = True"
| "object_like _ = False"

definition enrich :: "CloudWatchLogsFirehosePayload \<Rightarrow> 'n json \<Rightarrow> string \<Rightarrow> 'n json" where
  "enrich parsed structured iso_time =
     JObj (set_prop ''ingestion_time_iso'' (JStr iso_time)
            (set_prop ''log_stream'' (JStr (logStream parsed))
              (set_prop ''log_group'' (JStr (logGroup parsed)) (spread structured))))"

text \<open>
  The loop over the log events, building \<open>enrichedMessages\<close>. An exception (the
  \<open>RangeError\<close> of \<open>toISOString\<close>) leaves the loop and reaches the \<open>catch\<close> of
  \<open>processRecord\<close>.
\<close>

fun enrich_events ::
  "'n runtime \<Rightarrow> CloudWatchLogsFirehosePayload \<Rightarrow> logEvent list \<Rightarrow> js_error + 'n json list" where
  "enrich_events rt parsed [] = Inr []"
| "enrich_events rt parsed (ev # evs) =
     (let rawMessage = map_option trim (message ev) in
      if \<not> truthy rawMessage then enrich_events rt parsed evs
      else
        (case JSON_parse rt (the rawMessage) of
           Inl e \<Rightarrow> enrich_events rt parsed evs
         | Inr structured \<Rightarrow>
             if \<not> object_like structured then enrich_events rt parsed evs
             else
               (case toISOString (timestamp ev) of
                  Inl e \<Rightarrow> Inl e
                | Inr iso_time \<Rightarrow>
                    (case enrich_events rt parsed evs of
                       Inl e \<Rightarrow> Inl e
                     | Inr rest \<Rightarrow> Inr (enrich parsed structured iso_time # rest)))))"

definition processRecord ::
  "'n runtime \<Rightarrow> FirehoseTransformationEventRecord \<Rightarrow> FirehoseTransformationResultRecord list" where
  "processRecord rt record =
     (let payload = fromBase64 (data record) in
      case gunzipSync rt payload of
        Inl e \<Rightarrow> [buildErrorRecord record ProcessingFailed]
      | Inr decompressed \<Rightarrow>
          (case parse_payload rt decompressed of
             Inl e \<Rightarrow> [buildErrorRecord record ProcessingFailed]
           | Inr parsed \<Rightarrow>
               if messageType parsed \<noteq> ''DATA_MESSAGE'' then [buildErrorRecord record Dropped]
               else
                 (case enrich_events rt parsed (case logEvents parsed of None \<Rightarrow> [] | Some es \<Rightarrow> es) of
                    Inl e \<Rightarrow> [buildErrorRecord record ProcessingFailed]
                  | Inr enrichedMessages \<Rightarrow>
                      if length enrichedMessages = 0 then [buildErrorRecord record Dropped]
                      else [\<lparr>recordId = recordId record, data = encodeRecords rt enrichedMessages,
                             result = Ok\<rparr>])))"

text \<open>The handler returns \<open>{ records: transformed }\<close>; the model returns \<open>transformed\<close>.\<close>

definition firehose_handler ::
  "'n runtime \<Rightarrow> FirehoseTransformationEvent \<Rightarrow> FirehoseTransformationResultRecord list" where
  "firehose_handler rt event = concat (map (processRecord rt) (records event))"

text \<open>
  Reading newline-delimited text back: the lines of a text, each ended by a line feed
  (characters after the last line feed are a last, unterminated line).
\<close>

fun split_lines :: "string \<Rightarrow> string list" where
  "split_lines [] = []"
| "split_lines (c # cs) =
     (if c = CHR 0x0A then [] # split_lines cs
      else (case split_lines cs of [] \<Rightarrow> [[c]] | l # ls \<Rightarrow> (c # l) # ls))"

section \<open>Properties read off the runs, and example scenarios\<close>

text \<open>
  \<open>rdsDbName\<close> with the lower-casing step as a parameter. \<open>String.prototype.toLowerCase\<close>
  also maps some letters outside ASCII to ASCII letters (U+212A KELVIN SIGN to \<open>k\<close>),
  which \<open>toLowerCase\<close> above leaves to the replacement step; \<open>rdsDbName_with\<close> covers
  every such function.
\<close>

definition rdsDbName_with :: "(string \<Rightarrow> string) \<Rightarrow> string \<Rightarrow> string \<Rightarrow> string" where
  "rdsDbName_with lower project environment =
     (let base = lower (project @ ''_db_'' @ environment);
          cleaned1 = replace_disallowed base;
          cleaned2 = collapse_underscores cleaned1;
          cleaned3 = (if \<not> starts_with_letter cleaned2 then ''db_'' @ cleaned2 else cleaned2);
          cleaned4 = trim_underscores cleaned3
      in take 64 cleaned4)"

text \<open>A call that starts the instance.\<close>

fun is_start_call :: "ec2_command \<Rightarrow> bool" where
  "is_start_call (StartInstancesCommand i) = True"
| "is_start_call _ = False"

text \<open>
  New Year's Day 2025, a Wednesday and a member of the holiday list, and the following
  Thursday, a working day.
\<close>

definition new_year_2025 :: jst_date where
  "new_year_2025 = \<lparr>getFullYear = 2025, getMonth = 0, getDate = 1, getDay = 3\<rparr>"

definition jan_2_2025 :: jst_date where
  "jan_2_2025 = \<lparr>getFullYear = 2025, getMonth = 0, getDate = 2, getDay = 4\<rparr>"

definition dev_services :: ecs_env where
  "dev_services = \<lparr>CLUSTER = ''dev-cluster'', FRONTEND_SERVICE = ''frontend'',
     BACKEND_SERVICE = ''backend'', JOB_SERVICE = ''job'', DESIRED_UP = 1\<rparr>"

definition bastion :: ec2_env where
  "bastion = \<lparr>INSTANCE_ID = ''i-0abc'', HOSTED_ZONE_ID = ''Z1'', RECORD_NAME = ''bastion.example.com''\<rparr>"

text \<open>A provider that accepts every command.\<close>

definition accepting :: "'c \<Rightarrow> js_error option" where
  "accepting c = None"

text \<open>An instance that is running with a public address, and one that is stopped.\<close>

definition running_view :: "nat \<Rightarrow> js_error + instance_view" where
  "running_view k = Inr \<lparr>state_name = Some ''running'', public_ip = Some ''203.0.113.7''\<rparr>"

definition stopped_view :: "nat \<Rightarrow> js_error + instance_view" where
  "stopped_view k = Inr \<lparr>state_name = Some ''stopped'', public_ip = None\<rparr>"

definition running_instance :: ec2_provider where
  "running_instance = \<lparr>describe = running_view, start_instances = None, stop_instances = None,
     change_record_sets = None\<rparr>"

definition stopped_instance :: ec2_provider where
  "stopped_instance = \<lparr>describe = stopped_view, start_instances = None, stop_instances = None,
     change_record_sets = None\<rparr>"

text \<open>
  A database instance that is already stopped: RDS rejects \<open>StopDBInstance\<close> for an
  instance that is not in the \<open>available\<close> state with \<open>InvalidDBInstanceState\<close>.
\<close>

fun stopped_database :: "rds_command \<Rightarrow> js_error option" where
  "stopped_database (StopDBInstanceCommand i) = Some (ProviderFault ''InvalidDBInstanceState'')"
| "stopped_database (StartDBInstanceCommand i) = None"

text \<open>A registry without the tag, and one whose tag is a Docker manifest list.\<close>

definition create_image_check :: ecr_event where
  "create_image_check = \<lparr>RequestType = ''Create'', RepositoryName = ''backend'', ImageTag = ''v1''\<rparr>"

definition registry_without_tag :: "ecr_command \<Rightarrow> js_error + image_detail list option" where
  "registry_without_tag c = Inr (Some [])"

definition registry_with_manifest_list :: "ecr_command \<Rightarrow> js_error + image_detail list option" where
  "registry_with_manifest_list c =
     Inr (Some [\<lparr>artifactMediaType = None,
                  imageManifestMediaType = Some ''application/vnd.docker.distribution.manifest.list.v2+json''\<rparr>])"





text \<open>
  A bootstrap environment, a database that accepts every connection and query, a secret
  store with the users \<open>appuser\<close> and \<open>readonlyuser\<close> (as the stack generates them), and
  a secret store whose application and read-only secrets name the same user.
\<close>

definition bootstrap_env :: process_env where
  "bootstrap_env =
     [''DB_HOST'' \<mapsto> ''db.internal'', ''DB_PORT'' \<mapsto> ''3306'', ''DB_NAME'' \<mapsto> ''app_db_dev'',
      ''MASTER_SECRET_ARN'' \<mapsto> ''arn:master'', ''APPUSER_SECRET_ARN'' \<mapsto> ''arn:appuser'',
      ''READONLY_SECRET_ARN'' \<mapsto> ''arn:readonly'']"

definition stack_secrets :: "string \<Rightarrow> js_error + SecretJson" where
  "stack_secrets arn =
     (if arn = ''arn:master'' then Inr \<lparr>username = Some ''admin'', password = Some ''pw-admin''\<rparr>
      else if arn = ''arn:appuser'' then Inr \<lparr>username = Some ''appuser'', password = Some ''pw-app''\<rparr>
      else Inr \<lparr>username = Some ''readonlyuser'', password = Some ''pw-ro''\<rparr>)"


definition connects :: "nat \<Rightarrow> conn_opts \<Rightarrow> js_error option" where
  "connects i opts = None"

definition accepts_query :: "nat \<Rightarrow> string \<times> string list \<Rightarrow> js_error option" where
  "accepts_query k q = None"

definition healthy_db :: db_provider where
  "healthy_db = \<lparr>getSecretJson = stack_secrets, createConnection = connects,
     conn_query = accepts_query, conn_end = None\<rparr>"



definition delete_without_id :: db_event where
  "delete_without_id = \<lparr>db_RequestType = Some ''Delete'', PhysicalResourceId = None\<rparr>"

definition delete_with_id :: db_event where
  "delete_with_id = \<lparr>db_RequestType = Some ''Delete'', PhysicalResourceId = Some ''db.internal:app_db_dev''\<rparr>"


definition valid_time :: "int \<Rightarrow> bool" where
  "valid_time t = (abs t \<le> 8640000000000000)"

definition json_object_event :: "'n runtime \<Rightarrow> logEvent \<Rightarrow> bool" where
  "json_object_event rt ev =
     (case message ev of
        None \<Rightarrow> False
      | Some m \<Rightarrow> trim m \<noteq> [] \<and> (case JSON_parse rt (trim m) of Inr (JObj ps) \<Rightarrow> True | _ \<Rightarrow> False))"

definition not_json_event :: "'n runtime \<Rightarrow> logEvent \<Rightarrow> bool" where
  "not_json_event rt ev =
     (case message ev of
        None \<Rightarrow> False
      | Some m \<Rightarrow> trim m = [] \<or> (case JSON_parse rt (trim m) of Inl e \<Rightarrow> True | Inr v \<Rightarrow> False))"

definition enrich_event :: "'n runtime \<Rightarrow> CloudWatchLogsFirehosePayload \<Rightarrow> logEvent \<Rightarrow> 'n json" where
  "enrich_event rt parsed ev =
     enrich parsed (projr (JSON_parse rt (trim (the (message ev)))))
       (projr (toISOString (timestamp ev)))"

definition events_of :: "CloudWatchLogsFirehosePayload \<Rightarrow> logEvent list" where
  "events_of parsed = (case logEvents parsed of None \<Rightarrow> [] | Some es \<Rightarrow> es)"

text \<open>
  A delivery as CloudWatch Logs sends it through Firehose. \<open>control_text\<close> is the envelope
  of a control message, \<open>data_text\<close> the envelope of a data message with three events (a
  JSON object, a plain line, a JSON object that has a \<open>log_group\<close> field of its own and
  white space around it), \<open>late_text\<close> the same envelope with the first event's timestamp
  at \<open>1e16\<close>. The \<open>data\<close> of each record is the base64 text of the gzip stream of its
  envelope.
\<close>

definition control_text :: string where
  \<open>control_text =
     ''{"messageType":"CONTROL_MESSAGE","owner":"CloudwatchLogs","logGroup":"","logStream":"","subscriptionFilters":[],"logEvents":[{"id":"","timestamp":1700000000000,"message":"CWL CONTROL MESSAGE: Checking health of destination Firehose."}]}''\<close>

definition data_text :: string where
  \<open>data_text =
     ''{"messageType":"DATA_MESSAGE","owner":"123456789012","logGroup":"/ecs/backend","logStream":"backend/app/1","subscriptionFilters":["to-firehose"],"logEvents":[{"id":"1","timestamp":1700000000000,"message":"{''
     @ [CHR 0x5C] @ ''"level'' @ [CHR 0x5C] @ ''":'' @ [CHR 0x5C] @ ''"info'' @ [CHR 0x5C] @ ''",''
     @ [CHR 0x5C] @ ''"msg'' @ [CHR 0x5C] @ ''":'' @ [CHR 0x5C] @ ''"started'' @ [CHR 0x5C]
     @ ''"}"},{"id":"2","timestamp":1700000001000,"message":"plain text line"},{"id":"3","timestamp":1700000002000,"message":" {''
     @ [CHR 0x5C] @ ''"log_group'' @ [CHR 0x5C] @ ''":'' @ [CHR 0x5C] @ ''"mine'' @ [CHR 0x5C]
     @ ''",'' @ [CHR 0x5C] @ ''"status'' @ [CHR 0x5C] @ ''":200}'' @ [CHR 0x5C] @ ''n"}]}''\<close>

definition late_text :: string where
  \<open>late_text =
     ''{"messageType":"DATA_MESSAGE","owner":"123456789012","logGroup":"/ecs/backend","logStream":"backend/app/1","subscriptionFilters":["to-firehose"],"logEvents":[{"id":"1","timestamp":10000000000000000,"message":"{''
     @ [CHR 0x5C] @ ''"level'' @ [CHR 0x5C] @ ''":'' @ [CHR 0x5C] @ ''"info'' @ [CHR 0x5C] @ ''",''
     @ [CHR 0x5C] @ ''"msg'' @ [CHR 0x5C] @ ''":'' @ [CHR 0x5C] @ ''"started'' @ [CHR 0x5C]
     @ ''"}"},{"id":"2","timestamp":1700000001000,"message":"plain text line"},{"id":"3","timestamp":1700000002000,"message":"{''
     @ [CHR 0x5C] @ ''"log_group'' @ [CHR 0x5C] @ ''":'' @ [CHR 0x5C] @ ''"mine'' @ [CHR 0x5C]
     @ ''",'' @ [CHR 0x5C] @ ''"status'' @ [CHR 0x5C] @ ''":200}"}]}''\<close>

definition control_record :: FirehoseTransformationEventRecord where
  "control_record = \<lparr>recordId = ''rec-1'', data =
     ''H4sIAAAAAAAC/0WOUQuCMBSF/8rYs0Q9Bb6FqC+WkEIPIbH0tl3STbaZhPjf29Lovn2cw7nfRDswhnEo''
     @ ''3z3QkEb5qTzn2e0YF8UhjWlA1ShB+6RVQzMyW4tMceOCVvFUq6F32UKF1cC6Bc1wN7XG3qKSCbYWtKHh''
     @ ''tfr24hdI63Gi2Cx1i07Dss6N7fbb/wU/PS9wyciqR1a9kEQC6idKTgSw1gqiHqRxSyiZ/0wS1CCUgQ2d''
     @ ''q/kDiawB4OwAAAA='',
     approximateArrivalTimestamp = 1700000003000\<rparr>"

definition data_record :: FirehoseTransformationEventRecord where
  "data_record = \<lparr>recordId = ''rec-2'', data =
     ''H4sIAAAAAAAC/3WQwW6DMBBEfwXtmYpA0qblhlSSU0/kVkeRAxtq1diWvaStEP/ehaaKFCl7nPG8He8A''
     @ ''HYYgW9z9OIQcXotdcXgrq6rYlhCD/TLoWU6z5erxaf38skgzlrVtt972jp0E65AcZf2JpvlzKvIoO7Yu''
     @ ''aiKdS1L2Qn8MtVeOlDUbpQl9gPwdyD6clMcPGxD2M6E8o6HJG0A103YOk+KiJDvema4X14n/P8DvBgEa''
     @ ''z6gF5AKUOVkBsYAutLPAaU/YCBhhjC/k7A45vSE7LZWJCL8p0srgFbC8A8huANHUzbaHdjrbXKdjztyP''
     @ ''o9QH1jgzCgPjfvwFnB+w1pYBAAA='',
     approximateArrivalTimestamp = 1700000003000\<rparr>"

definition late_record :: FirehoseTransformationEventRecord where
  "late_record = \<lparr>recordId = ''rec-2'', data =
     ''H4sIAAAAAAAC/3WQQU+DQBCF/0ozZwyFqlVuJGJPnujNbZotTHHjsrvZHaqG8N8dEGNC7Bzf2/fN2+mh''
     @ ''xRBkg/svh5DBU77Pjy9FWea7AiKwHwY9y0m6ub273z48rpOUZW2bnbedYyfGKsQnWb2jqX+ckjzKlq1Z''
     @ ''jaVzccJe6E6h8sqRsuZZaUIfIHsFsjdn5fHNBoTDRCguaGj0elD1uJ3DpLgoyZZ3JuvFRL+f4Le9AI0X''
     @ ''1AIyAcqcrYBIQBuaSWCCJ6wFDDBEMz1d0LczNVmQnZbKrAg/aaWVwT/A5gog/aeabY7NeLmpTcuYqR4n''
     @ ''qQuscYSbHYZvCOLCQpcBAAA='',
     approximateArrivalTimestamp = 1700000003000\<rparr>"

definition started_message :: string where
  \<open>started_message = ''{"level":"info","msg":"started"}''\<close>

definition status_message :: string where
  \<open>status_message = ''{"log_group":"mine","status":200}''\<close>

definition control_payload :: CloudWatchLogsFirehosePayload where
  "control_payload = \<lparr>messageType = ''CONTROL_MESSAGE'', owner = ''CloudwatchLogs'', logGroup = [],
     logStream = [], subscriptionFilters = Some [],
     logEvents = Some [\<lparr>event_id = [], timestamp = 1700000000000,
       message = Some ''CWL CONTROL MESSAGE: Checking health of destination Firehose.''\<rparr>]\<rparr>"

definition data_events :: "logEvent list" where
  "data_events =
     [\<lparr>event_id = ''1'', timestamp = 1700000000000, message = Some started_message\<rparr>,
      \<lparr>event_id = ''2'', timestamp = 1700000001000, message = Some ''plain text line''\<rparr>,
      \<lparr>event_id = ''3'', timestamp = 1700000002000,
        message = Some ('' '' @ status_message @ [CHR 0x0A])\<rparr>]"

definition late_events :: "logEvent list" where
  "late_events =
     [\<lparr>event_id = ''1'', timestamp = 10000000000000000, message = Some started_message\<rparr>,
      \<lparr>event_id = ''2'', timestamp = 1700000001000, message = Some ''plain text line''\<rparr>,
      \<lparr>event_id = ''3'', timestamp = 1700000002000, message = Some status_message\<rparr>]"

definition data_payload :: CloudWatchLogsFirehosePayload where
  "data_payload = \<lparr>messageType = ''DATA_MESSAGE'', owner = ''123456789012'',
     logGroup = ''/ecs/backend'', logStream = ''backend/app/1'',
     subscriptionFilters = Some [''to-firehose''], logEvents = Some data_events\<rparr>"

definition late_payload :: CloudWatchLogsFirehosePayload where
  "late_payload = \<lparr>messageType = ''DATA_MESSAGE'', owner = ''123456789012'',
     logGroup = ''/ecs/backend'', logStream = ''backend/app/1'',
     subscriptionFilters = Some [''to-firehose''], logEvents = Some late_events\<rparr>"

text \<open>
  The two enriched objects of the data record, and the lines \<open>JSON.stringify\<close> writes
  for them.
\<close>

definition started_enriched :: "int json" where
  "started_enriched = JObj [(''level'', JStr ''info''), (''msg'', JStr ''started''),
     (''log_group'', JStr ''/ecs/backend''), (''log_stream'', JStr ''backend/app/1''),
     (''ingestion_time_iso'', JStr ''2023-11-14T22:13:20.000Z'')]"

definition status_enriched :: "int json" where
  "status_enriched = JObj [(''log_group'', JStr ''/ecs/backend''), (''status'', JNum 200),
     (''log_stream'', JStr ''backend/app/1''),
     (''ingestion_time_iso'', JStr ''2023-11-14T22:13:22.000Z'')]"

definition started_line :: string where
  \<open>started_line =
     ''{"level":"info","msg":"started","log_group":"/ecs/backend","log_stream":"backend/app/1","ingestion_time_iso":"2023-11-14T22:13:20.000Z"}''\<close>

definition status_line :: string where
  \<open>status_line =
     ''{"log_group":"/ecs/backend","status":200,"log_stream":"backend/app/1","ingestion_time_iso":"2023-11-14T22:13:22.000Z"}''\<close>

text \<open>
  The library functions on the texts of this delivery: what \<open>gunzipSync\<close> and
  \<open>JSON.parse\<close> return for them. Any other input is answered with an error. The
  numbers of the delivery are integers (the only one is 200), written in decimal digits.
\<close>

definition sample_gunzipSync :: "string \<Rightarrow> js_error + string" where
  "sample_gunzipSync bytes =
     (if bytes = fromBase64 (data control_record) then Inr control_text
      else if bytes = fromBase64 (data data_record) then Inr data_text
      else if bytes = fromBase64 (data late_record) then Inr late_text
      else Inl (Error ''incorrect header check''))"

definition sample_parse_payload :: "string \<Rightarrow> js_error + CloudWatchLogsFirehosePayload" where
  "sample_parse_payload text =
     (if text = control_text then Inr control_payload
      else if text = data_text then Inr data_payload
      else if text = late_text then Inr late_payload
      else Inl (SyntaxError ''Unexpected token''))"

definition sample_JSON_parse :: "string \<Rightarrow> js_error + int json" where
  "sample_JSON_parse text =
     (if text = started_message then Inr (JObj [(''level'', JStr ''info''), (''msg'', JStr ''started'')])
      else if text = status_message then Inr (JObj [(''log_group'', JStr ''mine''), (''status'', JNum 200)])
      else if text = started_line then Inr started_enriched
      else if text = status_line then Inr status_enriched
      else Inl (SyntaxError ''Unexpected token''))"

definition sample_runtime :: "int runtime" where
  "sample_runtime = \<lparr>gunzipSync = sample_gunzipSync, parse_payload = sample_parse_payload,
     JSON_parse = sample_JSON_parse, number_toString = int_toString\<rparr>"

definition sample_batch :: FirehoseTransformationEvent where
  "sample_batch = \<lparr>invocationId = ''inv-1'', deliveryStreamArn = ''arn:aws:firehose:stream'',
     region = ''ap-northeast-1'', records = [control_record, data_record]\<rparr>"

definition late_batch :: FirehoseTransformationEvent where
  "late_batch = \<lparr>invocationId = ''inv-2'', deliveryStreamArn = ''arn:aws:firehose:stream'',
     region = ''ap-northeast-1'', records = [control_record, late_record]\<rparr>"

section \<open>Theorems: naming\<close>

lemma set_collapse_underscores: "set (collapse_underscores s) \<subseteq> set s"
  by (induction s rule: collapse_underscores.induct) auto

lemma set_trim_underscores: "set (trim_underscores s) \<subseteq> set s"
proof -
  have "set (dropWhile (\<lambda>c. c = CHR ''_'') (rev (dropWhile (\<lambda>c. c = CHR ''_'') s)))
          \<subseteq> set (rev (dropWhile (\<lambda>c. c = CHR ''_'') s))"
    by (rule set_dropWhileD [THEN subsetI])
  also have "\<dots> \<subseteq> set s"
    using set_dropWhileD by fastforce
  finally show ?thesis by (simp add: trim_underscores_def)
qed

lemma name_char_replace_disallowed: "\<forall>c \<in> set (replace_disallowed s). name_char c"
  by (auto simp: replace_disallowed_def name_char_def)

lemma is_lower_not_underscore: "is_lower c \<Longrightarrow> c \<noteq> CHR ''_''"
  by (auto simp: is_lower_def)

lemma trim_underscores_keeps_head:
  assumes "c \<noteq> CHR ''_''"
  shows "\<exists>ys. trim_underscores (c # cs) = c # ys"
proof -
  have "dropWhile (\<lambda>c. c = CHR ''_'') (rev cs @ [c]) =
          (if \<forall>x \<in> set (rev cs). x = CHR ''_'' then [c]
           else dropWhile (\<lambda>c. c = CHR ''_'') (rev cs) @ [c])"
    using assms by (simp add: dropWhile_append)
  then have "trim_underscores (c # cs) =
          (if \<forall>x \<in> set (rev cs). x = CHR ''_'' then [c]
           else c # rev (dropWhile (\<lambda>c. c = CHR ''_'') (rev cs)))"
    using assms by (simp add: trim_underscores_def)
  then show ?thesis by (cases "\<forall>x \<in> set (rev cs). x = CHR ''_''") simp_all
qed

lemma name_char_db: "\<forall>c \<in> set ''db_''. name_char c"
  by (simp add: name_char_def is_lower_def is_digit_def)

text \<open>
  C10. For every project and environment, \<open>rdsDbName\<close> returns a string that is not
  empty, has at most 64 characters, begins with a lowercase letter and contains only
  lowercase letters, digits and underscores.
\<close>

theorem rdsDbName_well_formed:
  "rdsDbName project environment \<noteq> []
   \<and> length (rdsDbName project environment) \<le> 64
   \<and> is_lower (hd (rdsDbName project environment))
   \<and> (\<forall>c \<in> set (rdsDbName project environment). is_lower c \<or> is_digit c \<or> c = CHR ''_'')"
proof -
  define cleaned2 where
    "cleaned2 = collapse_underscores (replace_disallowed (toLowerCase (project @ ''_db_'' @ environment)))"
  define cleaned3 where
    "cleaned3 = (if \<not> starts_with_letter cleaned2 then ''db_'' @ cleaned2 else cleaned2)"
  have name: "rdsDbName project environment = take 64 (trim_underscores cleaned3)"
    by (simp add: rdsDbName_def Let_def cleaned2_def cleaned3_def)
  have chars2: "\<forall>c \<in> set cleaned2. name_char c"
    unfolding cleaned2_def using set_collapse_underscores name_char_replace_disallowed by blast
  have chars3: "\<forall>c \<in> set cleaned3. name_char c"
    using chars2 name_char_db by (auto simp: cleaned3_def)
  have "starts_with_letter cleaned3"
    by (simp add: cleaned3_def is_lower_def)
  then obtain c cs where c3: "cleaned3 = c # cs" and low: "is_lower c"
    by (cases cleaned3) auto
  obtain ys where tr: "trim_underscores cleaned3 = c # ys"
    using trim_underscores_keeps_head [OF is_lower_not_underscore [OF low]] c3 by blast
  have res: "rdsDbName project environment = c # take 63 ys"
    by (simp add: name tr take_Cons')
  have "set (rdsDbName project environment) \<subseteq> set cleaned3"
    unfolding name using set_take_subset set_trim_underscores by fast
  then have "\<forall>c \<in> set (rdsDbName project environment). name_char c"
    using chars3 by auto
  moreover have "length (rdsDbName project environment) \<le> 64"
    by (simp add: name)
  ultimately show ?thesis using res low by (simp add: name_char_def)
qed

theorem rdsDbName_well_formed_witness:
  "rdsDbName ''My-App'' ''dev'' = ''my_app_db_dev''
   \<and> rdsDbName ''My-App'' ''dev'' \<noteq> []
   \<and> length (rdsDbName ''My-App'' ''dev'') \<le> 64
   \<and> is_lower (hd (rdsDbName ''My-App'' ''dev''))
   \<and> list_all (\<lambda>c. is_lower c \<or> is_digit c \<or> c = CHR ''_'') (rdsDbName ''My-App'' ''dev'')"
proof -
  have "rdsDbName ''My-App'' ''dev'' = ''my_app_db_dev''" by code_simp
  then show ?thesis
    using rdsDbName_well_formed [of "''My-App''" "''dev''"] by (simp add: list_all_iff)
qed

lemma rdsDbName_with_toLowerCase: "rdsDbName_with toLowerCase project environment = rdsDbName project environment"
  by (simp add: rdsDbName_with_def rdsDbName_def)

text \<open>
  The well-formedness of the name does not depend on the lower-casing function: whatever
  \<open>lower\<close> returns, the replacement step leaves only characters of \<open>[a-z0-9_]\<close>.
\<close>

lemma rdsDbName_with_well_formed:
  "rdsDbName_with lower project environment \<noteq> []
   \<and> length (rdsDbName_with lower project environment) \<le> 64
   \<and> is_lower (hd (rdsDbName_with lower project environment))
   \<and> (\<forall>c \<in> set (rdsDbName_with lower project environment). is_lower c \<or> is_digit c \<or> c = CHR ''_'')"
proof -
  define cleaned2 where
    "cleaned2 = collapse_underscores (replace_disallowed (lower (project @ ''_db_'' @ environment)))"
  define cleaned3 where
    "cleaned3 = (if \<not> starts_with_letter cleaned2 then ''db_'' @ cleaned2 else cleaned2)"
  have name: "rdsDbName_with lower project environment = take 64 (trim_underscores cleaned3)"
    by (simp add: rdsDbName_with_def Let_def cleaned2_def cleaned3_def)
  have chars2: "\<forall>c \<in> set cleaned2. name_char c"
    unfolding cleaned2_def using set_collapse_underscores name_char_replace_disallowed by blast
  have chars3: "\<forall>c \<in> set cleaned3. name_char c"
    using chars2 name_char_db by (auto simp: cleaned3_def)
  have "starts_with_letter cleaned3"
    by (simp add: cleaned3_def is_lower_def)
  then obtain c cs where c3: "cleaned3 = c # cs" and low: "is_lower c"
    by (cases cleaned3) auto
  obtain ys where tr: "trim_underscores cleaned3 = c # ys"
    using trim_underscores_keeps_head [OF is_lower_not_underscore [OF low]] c3 by blast
  have res: "rdsDbName_with lower project environment = c # take 63 ys"
    by (simp add: name tr take_Cons')
  have "set (rdsDbName_with lower project environment) \<subseteq> set cleaned3"
    unfolding name using set_take_subset set_trim_underscores by fast
  then have "\<forall>c \<in> set (rdsDbName_with lower project environment). name_char c"
    using chars3 by auto
  moreover have "length (rdsDbName_with lower project environment) \<le> 64"
    by (simp add: name)
  ultimately show ?thesis using res low by (simp add: name_char_def)
qed

section \<open>Theorems: business-hours schedulers\<close>

lemma poll_dns_no_start: "\<forall>c \<in> set (fst (poll_dns env p n k)). \<not> is_start_call c"
proof (induction n arbitrary: k)
  case 0
  show ?case by simp
next
  case (Suc n)
  obtain calls err where rec: "poll_dns env p n (Suc k) = (calls, err)"
    by (cases "poll_dns env p n (Suc k)")
  have "\<forall>c \<in> set calls. \<not> is_start_call c"
    using Suc.IH [of "Suc k"] rec by simp
  then show ?case
    by (auto simp: rec split: sum.splits)
qed

text \<open>
  C1, as the claim states it, fails for the EC2 handler: on a rest day, \<open>start\<close> for an
  instance that is already running returns \<open>{ ok: true }\<close>, not \<open>{ skipped: true }\<close>
  (\<open>skipStartDueToHoliday\<close> is \<open>isHoliday && !isRunning && !isPending\<close>).
\<close>

theorem ec2_start_on_rest_day_counterexample:
  "isJapanHolidayJst new_year_2025
   \<and> snd (ec2_handler bastion running_instance new_year_2025 ''start'') = Inr (OkFlag True)
   \<and> snd (ec2_handler bastion running_instance new_year_2025 ''start'') \<noteq> Inr Skipped"
  by code_simp

text \<open>
  C1, amended. On a rest day (\<open>isJapanHolidayJst\<close> is true: a Saturday, a Sunday or a
  listed holiday), ECS \<open>up\<close> and RDS \<open>start\<close> return \<open>{ skipped: true }\<close> and send nothing
  to the provider. EC2 \<open>start\<close> sends no \<open>StartInstances\<close> on a rest day; when its first
  \<open>DescribeInstances\<close> succeeds, it returns \<open>{ skipped: true }\<close>, having sent only that
  call, if the instance is neither running nor pending, and does not report skipped
  if the instance is running or pending (it goes on to the DNS update).
\<close>

theorem start_on_rest_day:
  assumes "isJapanHolidayJst now"
  shows "ecs_handler env send now ''up'' = ([], Inr Skipped)
    \<and> rds_handler ident rds_send now ''start'' = ([], Inr Skipped)
    \<and> (\<forall>c \<in> set (fst (ec2_handler env2 p now ''start'')). \<not> is_start_call c)
    \<and> (\<forall>inst0. describe p 0 = Inr inst0 \<longrightarrow>
          (if state_name inst0 \<noteq> Some ''running'' \<and> state_name inst0 \<noteq> Some ''pending''
           then ec2_handler env2 p now ''start'' = ([DescribeInstancesCommand (INSTANCE_ID env2)], Inr Skipped)
           else snd (ec2_handler env2 p now ''start'') \<noteq> Inr Skipped))"
proof -
  have ecs: "ecs_handler env send now ''up'' = ([], Inr Skipped)"
    using assms by (simp add: ecs_handler_def)
  have rds: "rds_handler ident rds_send now ''start'' = ([], Inr Skipped)"
    using assms by (simp add: rds_handler_def)
  have nostart: "\<forall>c \<in> set (fst (ec2_handler env2 p now ''start'')). \<not> is_start_call c"
    using assms poll_dns_no_start [of env2 p 20 1]
    by (auto simp: ec2_handler_def Let_def split: sum.splits prod.splits option.splits if_splits)
  have ec2: "\<forall>inst0. describe p 0 = Inr inst0 \<longrightarrow>
          (if state_name inst0 \<noteq> Some ''running'' \<and> state_name inst0 \<noteq> Some ''pending''
           then ec2_handler env2 p now ''start'' = ([DescribeInstancesCommand (INSTANCE_ID env2)], Inr Skipped)
           else snd (ec2_handler env2 p now ''start'') \<noteq> Inr Skipped)"
    using assms
    by (auto simp: ec2_handler_def Let_def split: sum.splits prod.splits option.splits)
  show ?thesis using ecs rds nostart ec2 by blast
qed

theorem start_on_rest_day_witness:
  "isJapanHolidayJst new_year_2025
   \<and> ecs_handler dev_services accepting new_year_2025 ''up'' = ([], Inr Skipped)
   \<and> rds_handler ''dev-db'' accepting new_year_2025 ''start'' = ([], Inr Skipped)
   \<and> ec2_handler bastion stopped_instance new_year_2025 ''start''
       = ([DescribeInstancesCommand ''i-0abc''], Inr Skipped)
   \<and> snd (ec2_handler bastion running_instance new_year_2025 ''start'') \<noteq> Inr Skipped"
proof -
  have h: "isJapanHolidayJst new_year_2025" by code_simp
  have d1: "describe stopped_instance 0 = Inr \<lparr>state_name = Some ''stopped'', public_ip = None\<rparr>"
    by (simp add: stopped_instance_def stopped_view_def)
  have d2: "describe running_instance 0
              = Inr \<lparr>state_name = Some ''running'', public_ip = Some ''203.0.113.7''\<rparr>"
    by (simp add: running_instance_def running_view_def)
  from start_on_rest_day [OF h, of dev_services accepting "''dev-db''" accepting bastion stopped_instance] d1
  have a: "ecs_handler dev_services accepting new_year_2025 ''up'' = ([], Inr Skipped)
    \<and> rds_handler ''dev-db'' accepting new_year_2025 ''start'' = ([], Inr Skipped)
    \<and> ec2_handler bastion stopped_instance new_year_2025 ''start''
       = ([DescribeInstancesCommand ''i-0abc''], Inr Skipped)"
    by (simp add: bastion_def)
  from start_on_rest_day [OF h, of dev_services accepting "''dev-db''" accepting bastion running_instance] d2
  have b: "snd (ec2_handler bastion running_instance new_year_2025 ''start'') \<noteq> Inr Skipped"
    by simp
  show ?thesis using h a b by simp
qed

lemma rds_stop_rejection_propagates:
  "rds_send (StopDBInstanceCommand ident) = Some e \<Longrightarrow>
   rds_handler ident rds_send now ''stop'' = ([StopDBInstanceCommand ident], Inl e)"
  by (simp add: rds_handler_def)

lemma ec2_stop_never_raises:
  "ec2_handler env p now ''stop'' = ([StopInstancesCommand (INSTANCE_ID env)], Inr (OkFlag True))"
  by (simp add: ec2_handler_def split: option.splits)

text \<open>
  C3. The claim asks that \<open>stop\<close> on an already stopped resource returns \<open>{ ok: true }\<close>
  in all three handlers. The EC2 handler does so: it catches whatever \<open>StopInstances\<close>
  throws (\<open>ec2_stop_never_raises\<close>). The RDS handler has no \<open>try\<close>/\<open>catch\<close> around
  \<open>StopDBInstance\<close>: for a database that is already stopped the provider's rejection
  leaves the handler as an exception.
\<close>

theorem rds_stop_already_stopped_raises:
  "rds_handler ''dev-db'' stopped_database jan_2_2025 ''stop''
     = ([StopDBInstanceCommand ''dev-db''], Inl (ProviderFault ''InvalidDBInstanceState''))"
  by (simp add: rds_handler_def)

text \<open>
  C4. With action \<open>stop\<close>/\<open>down\<close> every handler sends its stop or scale-to-zero calls,
  whatever the date is (\<open>now\<close> is arbitrary: rest day or not) and whatever the provider
  answers.
\<close>

theorem stop_issued_on_every_day:
  "fst (ecs_handler env send now ''down'')
     = [\<lparr>cluster = CLUSTER env, service = FRONTEND_SERVICE env, desiredCount = 0\<rparr>,
        \<lparr>cluster = CLUSTER env, service = BACKEND_SERVICE env, desiredCount = 0\<rparr>,
        \<lparr>cluster = CLUSTER env, service = JOB_SERVICE env, desiredCount = 0\<rparr>]
   \<and> fst (rds_handler ident rds_send now ''stop'') = [StopDBInstanceCommand ident]
   \<and> fst (ec2_handler env2 p now ''stop'') = [StopInstancesCommand (INSTANCE_ID env2)]"
  by (simp add: ecs_handler_def rds_handler_def ec2_handler_def scale_commands_def
      split: option.splits)

section \<open>Theorems: single-architecture image guard\<close>

lemma includes_str_sublist: "includes_str v p = sublist p v"
  by (induction v) (simp_all add: sublist_Cons_right)

lemma isIndex_Some:
  "isIndex (Some v) = (includes_str v ''manifest.list'' \<or> includes_str v ''image.index'')"
  by (cases v) (auto simp: isIndex_def)

text \<open>
  C8. For \<open>RequestType\<close> \<open>Create\<close> or \<open>Update\<close> (anything but \<open>Delete\<close>), with \<open>tag\<close> the
  image tag looked up (\<open>ImageTag || 'latest'\<close>) and the registry answering
  \<open>DescribeImages\<close>: if the answer has no image details, the handler throws the error
  that names repository and tag and asks to push the image; if the artifact or manifest
  media type of the image contains \<open>manifest.list\<close> or \<open>image.index\<close>, the handler throws
  the error that names the repository and the tag. In both cases the outcome is the error
  (\<open>Inl\<close>), not a \<open>PhysicalResourceId\<close>.
\<close>

theorem image_guard_throws:
  assumes "RequestType event \<noteq> ''Delete''"
    and "repo = RepositoryName event"
    and "tag = (if ImageTag event = [] then ''latest'' else ImageTag event)"
    and "send (DescribeImagesCommand repo tag) = Inr imageDetails"
  shows "(first_detail imageDetails = None \<longrightarrow>
            snd (ecr_handler send event)
              = Inl (Error (''ECR tag not found: '' @ repo @ '':'' @ tag @ ''. Push the image before deploy.'')))
       \<and> (\<forall>d v. first_detail imageDetails = Some d
            \<and> (artifactMediaType d = Some v \<or> imageManifestMediaType d = Some v)
            \<and> (sublist ''manifest.list'' v \<or> sublist ''image.index'' v) \<longrightarrow>
            snd (ecr_handler send event)
              = Inl (Error (''Repository '' @ [CHR 0x27] @ repo @ [CHR 0x27] @ '' tag '' @ [CHR 0x27] @ tag
                       @ [CHR 0x27] @ '' is a multi-arch Image Index (''
                       @ template_or (artifactMediaType d) (imageManifestMediaType d)
                       @ ''). Please push a single-arch (linux/amd64) image.'')))"
proof -
  have tag: "or_else (Some (ImageTag event)) ''latest'' = tag"
    using assms(3) by simp
  have absent: "first_detail imageDetails = None \<Longrightarrow>
      snd (ecr_handler send event) = Inl (Error (tag_not_found_message repo tag))"
    using assms(1,4) by (simp add: ecr_handler_def Let_def tag assms(2) [symmetric] del: or_else.simps)
  have index: "snd (ecr_handler send event)
      = Inl (Error (multi_arch_message repo tag (template_or (artifactMediaType d) (imageManifestMediaType d))))"
    if "first_detail imageDetails = Some d"
      and "artifactMediaType d = Some v \<or> imageManifestMediaType d = Some v"
      and "sublist ''manifest.list'' v \<or> sublist ''image.index'' v" for d v
  proof -
    have "isIndex (Some v)"
      using that(3) by (simp add: isIndex_Some includes_str_sublist)
    then have "isIndex (artifactMediaType d) \<or> isIndex (imageManifestMediaType d)"
      using that(2) by auto
    then show ?thesis
      using assms(1,4) that(1)
      by (simp add: ecr_handler_def Let_def tag assms(2) [symmetric] del: or_else.simps)
  qed
  show ?thesis
    using absent index unfolding tag_not_found_message_def multi_arch_message_def by blast
qed

theorem image_guard_throws_witness:
  "snd (ecr_handler registry_without_tag create_image_check)
     = Inl (Error ''ECR tag not found: backend:v1. Push the image before deploy.'')
   \<and> snd (ecr_handler registry_with_manifest_list create_image_check)
     = Inl (Error (''Repository '' @ [CHR 0x27] @ ''backend'' @ [CHR 0x27] @ '' tag '' @ [CHR 0x27] @ ''v1''
              @ [CHR 0x27] @ '' is a multi-arch Image Index (application/vnd.docker.distribution.manifest.list.v2+json). Please push a single-arch (linux/amd64) image.''))"
proof -
  have rt: "RequestType create_image_check \<noteq> ''Delete''"
    by (simp add: create_image_check_def)
  have repo: "''backend'' = RepositoryName create_image_check"
    by (simp add: create_image_check_def)
  have tag: "''v1'' = (if ImageTag create_image_check = [] then ''latest'' else ImageTag create_image_check)"
    by (simp add: create_image_check_def)
  have s1: "registry_without_tag (DescribeImagesCommand ''backend'' ''v1'') = Inr (Some [])"
    by (simp add: registry_without_tag_def)
  have s2: "registry_with_manifest_list (DescribeImagesCommand ''backend'' ''v1'')
      = Inr (Some [\<lparr>artifactMediaType = None,
                  imageManifestMediaType = Some ''application/vnd.docker.distribution.manifest.list.v2+json''\<rparr>])"
    by (simp add: registry_with_manifest_list_def)
  have sub: "sublist ''manifest.list'' ''application/vnd.docker.distribution.manifest.list.v2+json''"
    by code_simp
  have a: "snd (ecr_handler registry_without_tag create_image_check)
     = Inl (Error ''ECR tag not found: backend:v1. Push the image before deploy.'')"
    using image_guard_throws [where event = create_image_check and repo = "''backend''"
        and tag = "''v1''" and send = registry_without_tag and imageDetails = "Some []",
        OF rt repo tag s1]
    by simp
  have b: "snd (ecr_handler registry_with_manifest_list create_image_check)
     = Inl (Error (''Repository '' @ [CHR 0x27] @ ''backend'' @ [CHR 0x27] @ '' tag '' @ [CHR 0x27] @ ''v1''
              @ [CHR 0x27] @ '' is a multi-arch Image Index (application/vnd.docker.distribution.manifest.list.v2+json). Please push a single-arch (linux/amd64) image.''))"
    using image_guard_throws [where event = create_image_check and repo = "''backend''"
        and tag = "''v1''" and send = registry_with_manifest_list, OF rt repo tag s2] sub
    by (simp add: template_or_def)
  show ?thesis using a b by simp
qed

section \<open>Theorems: database user bootstrap\<close>

lemma fallbackId_not_empty: "fallbackId env \<noteq> []"
  by (simp add: fallbackId_def)

lemma or_else_not_empty: "d \<noteq> [] \<Longrightarrow> or_else x d \<noteq> []"
  by (cases x) auto

lemma fallbackId_depends_on_host_and_name:
  "env' ''DB_HOST'' = env ''DB_HOST'' \<Longrightarrow> env' ''DB_NAME'' = env ''DB_NAME'' \<Longrightarrow>
   fallbackId env' = fallbackId env"
  by (simp add: fallbackId_def)

text \<open>
  C5. A \<open>Delete\<close> request performs no action (no secret is read, no connection is
  opened, no statement is sent) and returns the \<open>PhysicalResourceId\<close> it was given. If
  none was supplied (the field is absent or the empty string), it returns the fallback
  identity \<open>fallbackId\<close>, which is never empty and is a function of the environment
  variables \<open>DB_HOST\<close> and \<open>DB_NAME\<close> alone: two environments that agree on these two
  variables give the same identity, which is \<open>${DB_HOST}:${DB_NAME}\<close> when both are set
  and not empty (as the stack always sets them) and the literal \<open>db-init\<close> otherwise.
\<close>

theorem delete_returns_identity:
  assumes "db_RequestType event = Some ''Delete''"
  shows "fst (db_init_handler env p event) = []
    \<and> snd (db_init_handler env p event) \<noteq> Inr []
    \<and> (\<forall>given. PhysicalResourceId event = Some given \<and> given \<noteq> [] \<longrightarrow>
          snd (db_init_handler env p event) = Inr given)
    \<and> (PhysicalResourceId event = None \<or> PhysicalResourceId event = Some [] \<longrightarrow>
          snd (db_init_handler env p event) = Inr (fallbackId env))
    \<and> fallbackId env \<noteq> []
    \<and> (\<forall>env'. env' ''DB_HOST'' = env ''DB_HOST'' \<and> env' ''DB_NAME'' = env ''DB_NAME'' \<longrightarrow>
          fallbackId env' = fallbackId env)
    \<and> (\<forall>h n. env ''DB_HOST'' = Some h \<and> h \<noteq> [] \<and> env ''DB_NAME'' = Some n \<and> n \<noteq> [] \<longrightarrow>
          fallbackId env = h @ '':'' @ n)
    \<and> (\<not> truthy (env ''DB_HOST'') \<or> \<not> truthy (env ''DB_NAME'') \<longrightarrow> fallbackId env = ''db-init'')"
proof -
  have run: "db_init_handler env p event = ([], Inr (or_else (PhysicalResourceId event) (fallbackId env)))"
    using assms by (simp add: db_init_handler_def)
  have "or_else (PhysicalResourceId event) (fallbackId env) \<noteq> []"
    by (rule or_else_not_empty [OF fallbackId_not_empty])
  then have ne: "snd (db_init_handler env p event) \<noteq> Inr []"
    by (simp add: run)
  have given: "\<forall>given. PhysicalResourceId event = Some given \<and> given \<noteq> [] \<longrightarrow>
          snd (db_init_handler env p event) = Inr given"
    by (simp add: run)
  have fb: "PhysicalResourceId event = None \<or> PhysicalResourceId event = Some [] \<longrightarrow>
          snd (db_init_handler env p event) = Inr (fallbackId env)"
    by (auto simp: run)
  have dep: "\<forall>env'. env' ''DB_HOST'' = env ''DB_HOST'' \<and> env' ''DB_NAME'' = env ''DB_NAME'' \<longrightarrow>
          fallbackId env' = fallbackId env"
    by (intro allI impI, elim conjE) (rule fallbackId_depends_on_host_and_name)
  have both: "\<forall>h n. env ''DB_HOST'' = Some h \<and> h \<noteq> [] \<and> env ''DB_NAME'' = Some n \<and> n \<noteq> [] \<longrightarrow>
          fallbackId env = h @ '':'' @ n"
    by (simp add: fallbackId_def)
  have lit: "\<not> truthy (env ''DB_HOST'') \<or> \<not> truthy (env ''DB_NAME'') \<longrightarrow> fallbackId env = ''db-init''"
    by (auto simp: fallbackId_def)
  have quiet: "fst (db_init_handler env p event) = []"
    by (simp add: run)
  show ?thesis
    by (intro conjI quiet ne given fb fallbackId_not_empty dep both lit)
qed

theorem delete_returns_identity_witness:
  "db_init_handler bootstrap_env healthy_db delete_with_id = ([], Inr ''db.internal:app_db_dev'')
   \<and> db_init_handler bootstrap_env healthy_db delete_without_id = ([], Inr ''db.internal:app_db_dev'')
   \<and> fallbackId bootstrap_env = ''db.internal:app_db_dev''"
proof -
  have d1: "db_RequestType delete_with_id = Some ''Delete''"
    by (simp add: delete_with_id_def)
  have d2: "db_RequestType delete_without_id = Some ''Delete''"
    by (simp add: delete_without_id_def)
  note with_id = delete_returns_identity [OF d1, of bootstrap_env healthy_db]
  note without_id = delete_returns_identity [OF d2, of bootstrap_env healthy_db]
  have a1: "fst (db_init_handler bootstrap_env healthy_db delete_with_id) = []"
    by (rule with_id [THEN conjunct1])
  have a2: "snd (db_init_handler bootstrap_env healthy_db delete_with_id) = Inr ''db.internal:app_db_dev''"
    using with_id [THEN conjunct2, THEN conjunct2, THEN conjunct1]
    by (simp add: delete_with_id_def)
  have c: "fallbackId bootstrap_env = ''db.internal:app_db_dev''"
    using without_id [THEN conjunct2, THEN conjunct2, THEN conjunct2, THEN conjunct2,
        THEN conjunct2, THEN conjunct2, THEN conjunct1]
    by (simp add: bootstrap_env_def)
  have b1: "fst (db_init_handler bootstrap_env healthy_db delete_without_id) = []"
    by (rule without_id [THEN conjunct1])
  have b2: "snd (db_init_handler bootstrap_env healthy_db delete_without_id) = Inr ''db.internal:app_db_dev''"
    using without_id [THEN conjunct2, THEN conjunct2, THEN conjunct2, THEN conjunct1] c
    by (simp add: delete_without_id_def)
  show ?thesis
    using a1 a2 b1 b2 c by (simp add: prod_eq_iff)
qed











section \<open>Theorems: log enrichment pipeline\<close>

subsection \<open>Base64 round trip\<close>

lemma of_char_less_256: "(of_char c :: nat) < 256"
proof -
  have "(of_char c :: nat) mod 256 = of_char c" by simp
  then show ?thesis by (metis mod_less_divisor zero_less_numeral)
qed

lemma div_add_small: "b < n \<Longrightarrow> (a * n + b) div n = (a::nat)"
  by simp

lemma mod_add_small: "b < n \<Longrightarrow> (a * n + b) mod n = (b::nat)"
  by simp

lemma unquad:
  fixes x y z :: nat
  assumes "y < 256" "z < 256"
  shows "x div 4 * 4 + (x mod 4 * 16 + y div 16) div 16 = x"
    and "(x mod 4 * 16 + y div 16) mod 16 * 16 + (y mod 16 * 4 + z div 64) div 4 = y"
    and "(y mod 16 * 4 + z div 64) mod 4 * 64 + z mod 64 = z"
proof -
  have y: "y div 16 < 16" and z: "z div 64 < 4"
    using assms by (simp_all add: div_less_iff_less_mult)
  have d1: "(x mod 4 * 16 + y div 16) div 16 = x mod 4" using y by (rule div_add_small)
  have m1: "(x mod 4 * 16 + y div 16) mod 16 = y div 16" using y by (rule mod_add_small)
  have d2: "(y mod 16 * 4 + z div 64) div 4 = y mod 16" using z by (rule div_add_small)
  have m2: "(y mod 16 * 4 + z div 64) mod 4 = z div 64" using z by (rule mod_add_small)
  show "x div 4 * 4 + (x mod 4 * 16 + y div 16) div 16 = x" unfolding d1 by simp
  show "(x mod 4 * 16 + y div 16) mod 16 * 16 + (y mod 16 * 4 + z div 64) div 4 = y"
    unfolding m1 d2 by simp
  show "(y mod 16 * 4 + z div 64) mod 4 * 64 + z mod 64 = z" unfolding m2 by simp
qed

lemma unsextets_quad:
  assumes "y < 256" "z < 256"
  shows "unsextets (quad x y z @ r) = [char_of x, char_of y, char_of z] @ unsextets r"
  unfolding quad_def append.simps unsextets.simps unquad [OF assms] by (rule refl)

lemma unsextets_quad3:
  assumes "y < 256"
  shows "unsextets (take 3 (quad x y 0)) = [char_of x, char_of y]"
proof -
  have t: "take 3 (quad x y 0) = [x div 4, (x mod 4) * 16 + y div 16, (y mod 16) * 4 + 0 div 64]"
    by (simp add: quad_def)
  have z: "(0::nat) < 256" by simp
  show ?thesis
    unfolding t unsextets.simps unquad [OF assms z] by (rule refl)
qed

lemma unsextets_quad2: "unsextets (take 2 (quad x 0 0)) = [char_of x]"
proof -
  have t: "take 2 (quad x 0 0) = [x div 4, (x mod 4) * 16 + 0 div 16]"
    by (simp add: quad_def)
  have z: "(0::nat) < 256" by simp
  show ?thesis
    unfolding t unsextets.simps unquad [OF z z] by (rule refl)
qed

lemma unsextets_sextets: "unsextets (sextets s) = s"
proof (induction s rule: sextets.induct)
  case (1 a b c rest)
  then show ?case
    by (simp add: unsextets_quad)
next
  case (2 a b)
  show ?case
    by (simp add: unsextets_quad3)
next
  case (3 a)
  show ?case by (simp add: unsextets_quad2)
next
  case 4
  show ?case by simp
qed

lemma quad_bound:
  fixes x y z :: nat
  assumes "x < 256" "y < 256" "z < 256"
  shows "\<forall>n \<in> set (quad x y z). n < 64"
proof -
  have a: "x mod 4 < 4" "y mod 16 < 16" by simp_all
  have b: "y div 16 < 16" "z div 64 < 4" "x div 4 < 64"
    using assms by (simp_all add: div_less_iff_less_mult)
  have "x mod 4 * 16 + y div 16 < 64" using a b by linarith
  moreover have "y mod 16 * 4 + z div 64 < 64" using a b by linarith
  ultimately show ?thesis using b by (simp add: quad_def)
qed

lemma sextets_bound: "\<forall>n \<in> set (sextets s). n < 64"
proof (induction s rule: sextets.induct)
  case (1 a b c rest)
  then show ?case
    using quad_bound [OF of_char_less_256 of_char_less_256 of_char_less_256, of a b c] by auto
next
  case (2 a b)
  have "\<forall>n \<in> set (quad (of_char a) (of_char b) 0). n < 64"
    by (rule quad_bound) simp_all
  then show ?case using set_take_subset by fastforce
next
  case (3 a)
  have "\<forall>n \<in> set (quad (of_char a) 0 0). n < 64"
    by (rule quad_bound) simp_all
  then show ?case using set_take_subset by fastforce
next
  case 4
  show ?case by simp
qed


lemma of_char_b64_char:
  assumes "n < 64"
  shows "(of_char (b64_char n) :: nat) =
     (if n < 26 then 65 + n else if n < 52 then 71 + n else if n < 62 then n - 4
      else if n = 62 then 43 else 47)"
  using assms by (simp add: b64_char_def)

lemma char_code_eq: "(c = d) = ((of_char c :: nat) = of_char d)"
  by simp

lemma unbase64_code:
  "unbase64 c =
     (if 65 \<le> (of_char c :: nat) \<and> (of_char c :: nat) \<le> 90 then Some (of_char c - 65)
      else if 97 \<le> (of_char c :: nat) \<and> (of_char c :: nat) \<le> 122 then Some (of_char c - 71)
      else if 48 \<le> (of_char c :: nat) \<and> (of_char c :: nat) \<le> 57 then Some (of_char c + 4)
      else if (of_char c :: nat) = 43 \<or> (of_char c :: nat) = 45 then Some 62
      else if (of_char c :: nat) = 47 \<or> (of_char c :: nat) = 95 then Some 63
      else None)"
proof -
  have "(c = CHR ''+'') = ((of_char c :: nat) = 43)" "(c = CHR ''-'') = ((of_char c :: nat) = 45)"
    "(c = CHR ''/'') = ((of_char c :: nat) = 47)" "(c = CHR ''_'') = ((of_char c :: nat) = 95)"
    by (subst char_code_eq, simp)+
  then show ?thesis by (simp only: unbase64_def Let_def)
qed

lemma unbase64_b64_char: "n < 64 \<Longrightarrow> unbase64 (b64_char n) = Some n"
  unfolding unbase64_code by (simp only: of_char_b64_char) (auto split: if_splits)

lemma b64_char_not_pad: "n < 64 \<Longrightarrow> b64_char n \<noteq> CHR ''=''"
proof -
  assume n: "n < 64"
  have "(of_char (b64_char n) :: nat) \<noteq> 61"
    unfolding of_char_b64_char [OF n] using n by auto
  then show ?thesis by auto
qed

lemma map_filter_unbase64: "\<forall>n \<in> set ns. n < 64 \<Longrightarrow> List.map_filter unbase64 (map b64_char ns) = ns"
  by (induction ns) (simp_all add: unbase64_b64_char)

lemma takeWhile_not_pad:
  "\<forall>n \<in> set ns. n < 64 \<Longrightarrow>
   takeWhile (\<lambda>c. c \<noteq> CHR ''='') (map b64_char ns @ replicate k (CHR ''='')) = map b64_char ns"
  by (induction ns) (simp_all add: b64_char_not_pad)

lemma fromBase64_toBase64: "fromBase64 (toBase64 bytes) = bytes"
  by (simp add: fromBase64_def toBase64_def takeWhile_not_pad sextets_bound map_filter_unbase64
      unsextets_sextets)


subsection \<open>JSON text has no line feed; reading lines back\<close>

lemma digit_char_not_lf: "digit_char n \<noteq> CHR 0x0A"
proof -
  have "(of_char (digit_char n) :: nat) = 48 + n mod 10"
    by (simp add: digit_char_def)
  then have "(of_char (digit_char n) :: nat) \<noteq> of_char (CHR 0x0A)" by simp
  then show ?thesis by fastforce
qed

lemma nat_toString_no_lf: "CHR 0x0A \<notin> set (nat_toString n)"
proof (induction n rule: nat_toString.induct)
  case (1 n)
  show ?case
  proof (cases "n < 10")
    case True
    then show ?thesis
      using digit_char_not_lf [of n] by (subst nat_toString.simps) auto
  next
    case False
    then show ?thesis
      using 1 digit_char_not_lf [of n] by (subst nat_toString.simps) auto
  qed
qed

lemma int_toString_no_lf: "CHR 0x0A \<notin> set (int_toString i)"
  by (simp add: int_toString_def nat_toString_no_lf)

lemma hex_digit_not_lf: "hex_digit n \<noteq> CHR 0x0A"
proof -
  have "list_all (\<lambda>k. hex_digit k \<noteq> CHR 0x0A) [0..<16]" by code_simp
  moreover have "hex_digit n = hex_digit (n mod 16)" by (simp add: hex_digit_def)
  ultimately show ?thesis by (simp add: list_all_iff)
qed

lemma quote_char_no_lf: "CHR 0x0A \<notin> set (quote_char c)"
proof (cases "c = CHR 0x0A")
  case True
  then show ?thesis by (simp add: quote_char_def)
next
  case False
  then show ?thesis
    using hex_digit_not_lf [of "of_char c"] hex_digit_not_lf [of "of_char c div 16"]
    by (auto simp: quote_char_def Let_def)
qed

lemma quoteJSONString_no_lf: "CHR 0x0A \<notin> set (quoteJSONString s)"
  by (simp add: quoteJSONString_def quote_char_no_lf)

lemma join_no_lf:
  "CHR 0x0A \<notin> set sep \<Longrightarrow> \<forall>x \<in> set xs. CHR 0x0A \<notin> set x \<Longrightarrow> CHR 0x0A \<notin> set (join sep xs)"
  by (induction sep xs rule: join.induct) auto

lemma JSON_stringify_no_lf:
  assumes num: "\<forall>n. CHR 0x0A \<notin> set (num n)"
  shows "CHR 0x0A \<notin> set (JSON_stringify num v)"
proof (induction v)
  case JNull
  show ?case by simp
next
  case (JBool b)
  show ?case by simp
next
  case (JNum n)
  show ?case using num by simp
next
  case (JStr s)
  show ?case by (simp add: quoteJSONString_no_lf)
next
  case (JArr vs)
  have "CHR 0x0A \<notin> set (join '','' (map (JSON_stringify num) vs))"
    by (rule join_no_lf) (use JArr in auto)
  then show ?case by simp
next
  case (JObj ps)
  have "\<forall>x \<in> set (map (\<lambda>kv. quoteJSONString (fst kv) @ '':'' @ JSON_stringify num (snd kv)) ps).
          CHR 0x0A \<notin> set x"
  proof
    fix x
    assume "x \<in> set (map (\<lambda>kv. quoteJSONString (fst kv) @ '':'' @ JSON_stringify num (snd kv)) ps)"
    then obtain kv where kv: "kv \<in> set ps"
      and x: "x = quoteJSONString (fst kv) @ '':'' @ JSON_stringify num (snd kv)"
      by auto
    have "CHR 0x0A \<notin> set (JSON_stringify num (snd kv))"
      using JObj kv by (cases kv) auto
    then show "CHR 0x0A \<notin> set x"
      by (simp add: x quoteJSONString_no_lf)
  qed
  then have "CHR 0x0A \<notin> set (join '',''
      (map (\<lambda>kv. quoteJSONString (fst kv) @ '':'' @ JSON_stringify num (snd kv)) ps))"
    by (intro join_no_lf) simp_all
  then show ?case by simp
qed

lemma split_lines_line:
  "CHR 0x0A \<notin> set l \<Longrightarrow> split_lines (l @ CHR 0x0A # rest) = l # split_lines rest"
  by (induction l) auto

lemma split_lines_concat:
  "\<forall>l \<in> set ls. CHR 0x0A \<notin> set l \<Longrightarrow>
   split_lines (concat (map (\<lambda>l. l @ [CHR 0x0A]) ls)) = ls"
  by (induction ls) (simp_all add: split_lines_line)

lemma join_lines: "ls \<noteq> [] \<Longrightarrow> join [CHR 0x0A] ls @ [CHR 0x0A] = concat (map (\<lambda>l. l @ [CHR 0x0A]) ls)"
  by (induction "[CHR 0x0A]" ls rule: join.induct) simp_all

lemma decode_encodeRecords:
  assumes "values \<noteq> []"
  shows "fromBase64 (encodeRecords rt values)
           = concat (map (\<lambda>v. JSON_stringify (number_toString rt) v @ [CHR 0x0A]) values)"
proof -
  have "fromBase64 (encodeRecords rt values)
      = join [CHR 0x0A] (map (JSON_stringify (number_toString rt)) values) @ [CHR 0x0A]"
    by (simp add: encodeRecords_def fromBase64_toBase64)
  also have "\<dots> = concat (map (\<lambda>l. l @ [CHR 0x0A]) (map (JSON_stringify (number_toString rt)) values))"
    using assms by (intro join_lines) simp
  finally show ?thesis by (simp add: comp_def)
qed

lemma lines_encodeRecords:
  assumes "values \<noteq> []" and "\<forall>n. CHR 0x0A \<notin> set (number_toString rt n)"
  shows "split_lines (fromBase64 (encodeRecords rt values))
           = map (JSON_stringify (number_toString rt)) values"
proof -
  have "fromBase64 (encodeRecords rt values)
      = concat (map (\<lambda>l. l @ [CHR 0x0A]) (map (JSON_stringify (number_toString rt)) values))"
    using decode_encodeRecords [OF assms(1)] by (simp add: comp_def)
  then show ?thesis
    using split_lines_concat [of "map (JSON_stringify (number_toString rt)) values"]
      JSON_stringify_no_lf [OF assms(2)]
    by simp
qed

subsection \<open>Properties of objects\<close>











subsection \<open>The loop over the log events\<close>


lemma toISOString_valid: "valid_time t \<Longrightarrow> \<exists>s. toISOString t = Inr s"
  by (simp add: toISOString_def valid_time_def Let_def split: prod.splits)

lemma toISOString_invalid: "\<not> valid_time t \<Longrightarrow> toISOString t = Inl (RangeError ''Invalid time value'')"
  by (simp add: toISOString_def valid_time_def)

lemma object_event_not_nonjson: "json_object_event rt ev \<Longrightarrow> \<not> not_json_event rt ev"
  by (auto simp: json_object_event_def not_json_event_def split: option.splits sum.splits)

lemma enrich_events_survivors:
  assumes "\<forall>ev \<in> set evs. (json_object_event rt ev \<and> valid_time (timestamp ev)) \<or> not_json_event rt ev"
  shows "enrich_events rt parsed evs
           = Inr (map (enrich_event rt parsed) (filter (json_object_event rt) evs))"
  using assms
proof (induction evs)
  case Nil
  show ?case by simp
next
  case (Cons ev evs)
  then have IH: "enrich_events rt parsed evs
           = Inr (map (enrich_event rt parsed) (filter (json_object_event rt) evs))"
    by simp
  from Cons.prems consider
    (obj) "json_object_event rt ev" "valid_time (timestamp ev)"
    | (nonjson) "not_json_event rt ev" "\<not> json_object_event rt ev"
    using object_event_not_nonjson by auto
  then show ?case
  proof cases
    case obj
    then obtain m ps where m: "message ev = Some m" "trim m \<noteq> []"
      "JSON_parse rt (trim m) = Inr (JObj ps)"
      by (auto simp: json_object_event_def split: option.splits sum.splits json.splits)
    obtain s where s: "toISOString (timestamp ev) = Inr s"
      using toISOString_valid [OF obj(2)] by blast
    show ?thesis
      using obj(1) m s IH by (simp add: enrich_event_def)
  next
    case nonjson
    then obtain m where m: "message ev = Some m"
      "trim m = [] \<or> (\<exists>e. JSON_parse rt (trim m) = Inl e)"
      by (auto simp: not_json_event_def split: option.splits sum.splits)
    show ?thesis
      using nonjson(2) m IH by auto
  qed
qed

subsection \<open>One result per record\<close>

lemma processRecord_cases:
  "processRecord rt record = [buildErrorRecord record ProcessingFailed]
   \<or> processRecord rt record = [buildErrorRecord record Dropped]
   \<or> (\<exists>text parsed objs.
         gunzipSync rt (fromBase64 (data record)) = Inr text \<and> parse_payload rt text = Inr parsed
         \<and> messageType parsed = ''DATA_MESSAGE''
         \<and> enrich_events rt parsed (events_of parsed) = Inr objs \<and> objs \<noteq> []
         \<and> processRecord rt record
             = [\<lparr>recordId = recordId record, data = encodeRecords rt objs, result = Ok\<rparr>])"
  by (auto simp: processRecord_def events_of_def Let_def split: sum.splits)

lemma processRecord_recordId: "map recordId (processRecord rt record) = [recordId record]"
  using processRecord_cases [of rt "record"] by (auto simp: buildErrorRecord_def)

text \<open>
  C9. For every event the handler returns exactly one result record per input record,
  in the order of the input, and each result carries the \<open>recordId\<close> of its input
  record, whatever the outcome (\<open>Ok\<close>, \<open>Dropped\<close> or \<open>ProcessingFailed\<close>) and whatever the
  library functions return.
\<close>

theorem one_result_per_record:
  "length (firehose_handler rt event) = length (records event)
   \<and> map recordId (firehose_handler rt event) = map recordId (records event)"
proof -
  have "map recordId (concat (map (processRecord rt) rs)) = map recordId rs" for rs
    by (induction rs) (simp_all add: processRecord_recordId)
  then have ids: "map recordId (firehose_handler rt event) = map recordId (records event)"
    by (simp add: firehose_handler_def)
  then have "length (firehose_handler rt event) = length (records event)"
    by (rule map_eq_imp_length_eq)
  then show ?thesis using ids by simp
qed

subsection \<open>The sample delivery, step by step\<close>

lemma sample_texts_differ:
  "data_text \<noteq> control_text" "late_text \<noteq> control_text" "late_text \<noteq> data_text"
  by (simp_all add: data_text_def control_text_def late_text_def)

lemma sample_parse_payload_facts:
  "sample_parse_payload control_text = Inr control_payload"
  "sample_parse_payload data_text = Inr data_payload"
  "sample_parse_payload late_text = Inr late_payload"
  by (simp_all add: sample_parse_payload_def sample_texts_differ)

lemma sample_trim:
  "trim started_message = started_message"
  "trim status_message = status_message"
  "trim (CHR '' '' # status_message @ [CHR 0x0A]) = status_message"
  "trim ''plain text line'' = ''plain text line''"
  by (simp_all add: trim_def is_space1_def is_space2_def is_space3_def started_message_def
      status_message_def)

lemma sample_messages_not_empty: "started_message \<noteq> []" "status_message \<noteq> []"
  by (simp_all add: started_message_def status_message_def)

lemma sample_JSON_parse_facts:
  "sample_JSON_parse started_message = Inr (JObj [(''level'', JStr ''info''), (''msg'', JStr ''started'')])"
  "sample_JSON_parse status_message = Inr (JObj [(''log_group'', JStr ''mine''), (''status'', JNum 200)])"
  "sample_JSON_parse ''plain text line'' = Inl (SyntaxError ''Unexpected token'')"
  "sample_JSON_parse started_line = Inr started_enriched"
  "sample_JSON_parse status_line = Inr status_enriched"
  by (simp_all add: sample_JSON_parse_def started_message_def status_message_def started_line_def
      status_line_def)

lemma sample_times:
  "toISOString 1700000000000 = Inr ''2023-11-14T22:13:20.000Z''"
  "toISOString 1700000002000 = Inr ''2023-11-14T22:13:22.000Z''"
  "toISOString 10000000000000000 = Inl (RangeError ''Invalid time value'')"
  by code_simp+

lemma sample_enrich:
  "enrich data_payload (JObj [(''level'', JStr ''info''), (''msg'', JStr ''started'')])
     ''2023-11-14T22:13:20.000Z'' = started_enriched"
  "enrich data_payload (JObj [(''log_group'', JStr ''mine''), (''status'', JNum 200)])
     ''2023-11-14T22:13:22.000Z'' = status_enriched"
  by (simp_all add: enrich_def spread_def data_payload_def started_enriched_def status_enriched_def)

lemma sample_lines:
  "JSON_stringify int_toString started_enriched = started_line"
  "JSON_stringify int_toString status_enriched = status_line"
  by code_simp+

lemma sample_number_toString: "number_toString sample_runtime = int_toString"
  by (simp add: sample_runtime_def)

lemma sample_numbers_no_lf: "\<forall>n. CHR 0x0A \<notin> set (number_toString sample_runtime n)"
  by (simp add: sample_number_toString int_toString_no_lf)

text \<open>A message that begins with a no-break space (U+00A0) is trimmed like any other.\<close>

lemma trim_no_break_space: "trim ([CHR 0xC2, CHR 0xA0] @ ''{}'' @ [CHR 0x0A]) = ''{}''"
  by (simp add: trim_def is_space1_def is_space2_def is_space3_def)


lemma sample_streams_differ:
  "fromBase64 (data data_record) \<noteq> fromBase64 (data control_record)"
  "fromBase64 (data late_record) \<noteq> fromBase64 (data control_record)"
  "fromBase64 (data late_record) \<noteq> fromBase64 (data data_record)"
  by (simp_all add: fromBase64_def unbase64_def data_record_def control_record_def late_record_def
      char_of_eq_iff)

lemma sample_gunzipSync_facts:
  "sample_gunzipSync (fromBase64 (data control_record)) = Inr control_text"
  "sample_gunzipSync (fromBase64 (data data_record)) = Inr data_text"
  "sample_gunzipSync (fromBase64 (data late_record)) = Inr late_text"
  by (simp_all add: sample_gunzipSync_def sample_streams_differ)

lemma sample_enrich_events:
  "enrich_events sample_runtime data_payload data_events = Inr [started_enriched, status_enriched]"
  by (simp add: data_events_def sample_runtime_def sample_trim sample_JSON_parse_facts sample_times
      sample_enrich sample_messages_not_empty Let_def)

lemma late_enrich_events:
  "enrich_events sample_runtime late_payload late_events = Inl (RangeError ''Invalid time value'')"
  by (simp add: late_events_def sample_runtime_def sample_trim sample_JSON_parse_facts sample_times
      sample_messages_not_empty Let_def)

lemma sample_processRecord:
  "processRecord sample_runtime control_record
     = [\<lparr>recordId = ''rec-1'', data = data control_record, result = Dropped\<rparr>]"
  "processRecord sample_runtime data_record
     = [\<lparr>recordId = ''rec-2'', data = encodeRecords sample_runtime [started_enriched, status_enriched], result = Ok\<rparr>]"
  "processRecord sample_runtime late_record
     = [\<lparr>recordId = ''rec-2'', data = data late_record, result = ProcessingFailed\<rparr>]"
proof -
  have rt: "gunzipSync sample_runtime = sample_gunzipSync"
    "parse_payload sample_runtime = sample_parse_payload"
    by (simp_all add: sample_runtime_def)
  have ids: "recordId control_record = ''rec-1''" "recordId data_record = ''rec-2''"
    "recordId late_record = ''rec-2''"
    by (simp_all add: control_record_def data_record_def late_record_def)
  have mt: "messageType control_payload \<noteq> ''DATA_MESSAGE''"
    "messageType data_payload = ''DATA_MESSAGE''" "messageType late_payload = ''DATA_MESSAGE''"
    "logEvents data_payload = Some data_events" "logEvents late_payload = Some late_events"
    by (simp_all add: control_payload_def data_payload_def late_payload_def)
  show "processRecord sample_runtime control_record
     = [\<lparr>recordId = ''rec-1'', data = data control_record, result = Dropped\<rparr>]"
    by (simp add: processRecord_def rt sample_gunzipSync_facts sample_parse_payload_facts mt ids
        buildErrorRecord_def)
  show "processRecord sample_runtime data_record
     = [\<lparr>recordId = ''rec-2'', data = encodeRecords sample_runtime [started_enriched, status_enriched], result = Ok\<rparr>]"
    by (simp add: processRecord_def rt sample_gunzipSync_facts sample_parse_payload_facts mt ids
        sample_enrich_events)
  show "processRecord sample_runtime late_record
     = [\<lparr>recordId = ''rec-2'', data = data late_record, result = ProcessingFailed\<rparr>]"
    by (simp add: processRecord_def rt sample_gunzipSync_facts sample_parse_payload_facts mt ids
        late_enrich_events buildErrorRecord_def)
qed

subsection \<open>A control record and a data record\<close>

text \<open>
  C2, as the claim states it, fails when a log event carries a timestamp outside the
  range of \<open>Date\<close>: \<open>toISOString\<close> throws, the \<open>catch\<close> of \<open>processRecord\<close> marks the whole
  data record \<open>ProcessingFailed\<close>, and the output has no \<open>Ok\<close> record.
\<close>

theorem late_timestamp_counterexample:
  "gunzipSync sample_runtime (fromBase64 (data control_record)) = Inr control_text
   \<and> parse_payload sample_runtime control_text = Inr control_payload
   \<and> messageType control_payload = ''CONTROL_MESSAGE''
   \<and> gunzipSync sample_runtime (fromBase64 (data late_record)) = Inr late_text
   \<and> parse_payload sample_runtime late_text = Inr late_payload
   \<and> messageType late_payload = ''DATA_MESSAGE''
   \<and> logEvents late_payload = Some late_events
   \<and> map (json_object_event sample_runtime) late_events = [True, False, True]
   \<and> map (not_json_event sample_runtime) late_events = [False, True, False]
   \<and> records late_batch = [control_record, late_record]
   \<and> firehose_handler sample_runtime late_batch
       = [\<lparr>recordId = ''rec-1'', data = data control_record, result = Dropped\<rparr>,
          \<lparr>recordId = ''rec-2'', data = data late_record, result = ProcessingFailed\<rparr>]"
proof -
  have rt: "gunzipSync sample_runtime = sample_gunzipSync"
    "parse_payload sample_runtime = sample_parse_payload"
    "JSON_parse sample_runtime = sample_JSON_parse"
    by (simp_all add: sample_runtime_def)
  have p: "messageType control_payload = ''CONTROL_MESSAGE''"
    "messageType late_payload = ''DATA_MESSAGE''" "logEvents late_payload = Some late_events"
    by (simp_all add: control_payload_def late_payload_def)
  have obj: "map (json_object_event sample_runtime) late_events = [True, False, True]"
    by (simp add: late_events_def json_object_event_def rt sample_trim sample_JSON_parse_facts
        sample_messages_not_empty)
  have non: "map (not_json_event sample_runtime) late_events = [False, True, False]"
    by (simp add: late_events_def not_json_event_def rt sample_trim sample_JSON_parse_facts
        sample_messages_not_empty)
  have recs: "records late_batch = [control_record, late_record]"
    by (simp add: late_batch_def)
  have run: "firehose_handler sample_runtime late_batch
       = [\<lparr>recordId = ''rec-1'', data = data control_record, result = Dropped\<rparr>,
          \<lparr>recordId = ''rec-2'', data = data late_record, result = ProcessingFailed\<rparr>]"
    by (simp add: firehose_handler_def recs sample_processRecord)
  show ?thesis
    using rt(1,2) sample_gunzipSync_facts sample_parse_payload_facts p obj non recs run by simp
qed

lemma processRecord_dropped:
  assumes "gunzipSync rt (fromBase64 (data r)) = Inr text" "parse_payload rt text = Inr parsed"
    and "messageType parsed \<noteq> ''DATA_MESSAGE''"
  shows "processRecord rt r = [\<lparr>recordId = recordId r, data = data r, result = Dropped\<rparr>]"
  using assms by (simp add: processRecord_def buildErrorRecord_def)

lemma processRecord_ok:
  assumes "gunzipSync rt (fromBase64 (data r)) = Inr text" "parse_payload rt text = Inr parsed"
    and "messageType parsed = ''DATA_MESSAGE''" "logEvents parsed = Some evs"
    and "enrich_events rt parsed evs = Inr objs" "objs \<noteq> []"
  shows "processRecord rt r = [\<lparr>recordId = recordId r, data = encodeRecords rt objs, result = Ok\<rparr>]"
  using assms by (simp add: processRecord_def)

text \<open>
  C2, amended. Take a control record \<open>r1\<close> (its envelope has \<open>messageType\<close>
  \<open>CONTROL_MESSAGE\<close>) and a data record \<open>r2\<close> whose envelope has three log events: two
  whose trimmed messages parse as JSON objects, with timestamps in the range of \<open>Date\<close>
  (\<open>\<plusminus>8.64e15\<close> ms), and one whose message is not JSON. Then \<open>r1\<close> gives one \<open>Dropped\<close>
  result with its \<open>recordId\<close> (and its data unchanged), \<open>r2\<close> gives one \<open>Ok\<close> result
  whose data decodes to the JSON texts of exactly two enriched objects, each followed by
  a line feed (so to exactly two lines, as \<open>Number.prototype.toString\<close> writes no line
  feed), and the handler returns these two results for the batch, in the order of the
  input.
\<close>

theorem control_and_data_batch:
  assumes ctl: "gunzipSync rt (fromBase64 (data r1)) = Inr text1" "parse_payload rt text1 = Inr parsed1"
      "messageType parsed1 = ''CONTROL_MESSAGE''"
    and dat: "gunzipSync rt (fromBase64 (data r2)) = Inr text2" "parse_payload rt text2 = Inr parsed2"
      "messageType parsed2 = ''DATA_MESSAGE''" "logEvents parsed2 = Some evs"
    and evs: "length evs = 3" "length (filter (json_object_event rt) evs) = 2"
      "\<forall>ev \<in> set evs. json_object_event rt ev \<or> not_json_event rt ev"
    and times: "\<forall>ev \<in> set evs. json_object_event rt ev \<longrightarrow> valid_time (timestamp ev)"
    and objs: "objs = map (enrich_event rt parsed2) (filter (json_object_event rt) evs)"
  shows "length objs = 2
    \<and> processRecord rt r1 = [\<lparr>recordId = recordId r1, data = data r1, result = Dropped\<rparr>]
    \<and> processRecord rt r2 = [\<lparr>recordId = recordId r2, data = encodeRecords rt objs, result = Ok\<rparr>]
    \<and> fromBase64 (encodeRecords rt objs)
        = concat (map (\<lambda>obj. JSON_stringify (number_toString rt) obj @ [CHR 0x0A]) objs)
    \<and> ((\<forall>n. CHR 0x0A \<notin> set (number_toString rt n)) \<longrightarrow>
          split_lines (fromBase64 (encodeRecords rt objs))
            = map (JSON_stringify (number_toString rt)) objs)
    \<and> (records event = [r1, r2] \<longrightarrow>
          firehose_handler rt event
            = [\<lparr>recordId = recordId r1, data = data r1, result = Dropped\<rparr>,
               \<lparr>recordId = recordId r2, data = encodeRecords rt objs, result = Ok\<rparr>])
    \<and> (records event = [r2, r1] \<longrightarrow>
          firehose_handler rt event
            = [\<lparr>recordId = recordId r2, data = encodeRecords rt objs, result = Ok\<rparr>,
               \<lparr>recordId = recordId r1, data = data r1, result = Dropped\<rparr>])"
proof -
  have len: "length objs = 2"
    using evs(2) by (simp add: objs)
  then have ne: "objs \<noteq> []" by auto
  have "\<forall>ev \<in> set evs. (json_object_event rt ev \<and> valid_time (timestamp ev)) \<or> not_json_event rt ev"
    using evs(3) times by blast
  then have loop: "enrich_events rt parsed2 evs = Inr objs"
    unfolding objs by (rule enrich_events_survivors)
  have d: "processRecord rt r1 = [\<lparr>recordId = recordId r1, data = data r1, result = Dropped\<rparr>]"
    using ctl by (intro processRecord_dropped [of rt r1 text1 parsed1]) simp_all
  have k: "processRecord rt r2 = [\<lparr>recordId = recordId r2, data = encodeRecords rt objs, result = Ok\<rparr>]"
    using dat loop ne by (intro processRecord_ok [of rt r2 text2 parsed2 evs]) simp_all
  have dec: "fromBase64 (encodeRecords rt objs)
        = concat (map (\<lambda>obj. JSON_stringify (number_toString rt) obj @ [CHR 0x0A]) objs)"
    using ne by (rule decode_encodeRecords)
  have lines: "(\<forall>n. CHR 0x0A \<notin> set (number_toString rt n)) \<longrightarrow>
          split_lines (fromBase64 (encodeRecords rt objs))
            = map (JSON_stringify (number_toString rt)) objs"
    using lines_encodeRecords [OF ne] by blast
  have h1: "records event = [r1, r2] \<longrightarrow>
          firehose_handler rt event
            = [\<lparr>recordId = recordId r1, data = data r1, result = Dropped\<rparr>,
               \<lparr>recordId = recordId r2, data = encodeRecords rt objs, result = Ok\<rparr>]"
    by (simp add: firehose_handler_def d k)
  have h2: "records event = [r2, r1] \<longrightarrow>
          firehose_handler rt event
            = [\<lparr>recordId = recordId r2, data = encodeRecords rt objs, result = Ok\<rparr>,
               \<lparr>recordId = recordId r1, data = data r1, result = Dropped\<rparr>]"
    by (simp add: firehose_handler_def d k)
  show ?thesis
    by (intro conjI len d k dec lines h1 h2)
qed

theorem control_and_data_batch_witness:
  "firehose_handler sample_runtime sample_batch
     = [\<lparr>recordId = ''rec-1'', data = data control_record, result = Dropped\<rparr>,
        \<lparr>recordId = ''rec-2'', data = encodeRecords sample_runtime [started_enriched, status_enriched], result = Ok\<rparr>]
   \<and> split_lines (fromBase64 (encodeRecords sample_runtime [started_enriched, status_enriched]))
       = [started_line, status_line]"
proof -
  have rt: "gunzipSync sample_runtime = sample_gunzipSync"
    "parse_payload sample_runtime = sample_parse_payload"
    "JSON_parse sample_runtime = sample_JSON_parse"
    by (simp_all add: sample_runtime_def)
  have c1: "gunzipSync sample_runtime (fromBase64 (data control_record)) = Inr control_text"
    and c2: "parse_payload sample_runtime control_text = Inr control_payload"
    and c3: "messageType control_payload = ''CONTROL_MESSAGE''"
    by (simp_all add: rt sample_gunzipSync_facts sample_parse_payload_facts control_payload_def)
  have d1: "gunzipSync sample_runtime (fromBase64 (data data_record)) = Inr data_text"
    and d2: "parse_payload sample_runtime data_text = Inr data_payload"
    and d3: "messageType data_payload = ''DATA_MESSAGE''"
    and d4: "logEvents data_payload = Some data_events"
    by (simp_all add: rt sample_gunzipSync_facts sample_parse_payload_facts data_payload_def)
  have obj: "map (json_object_event sample_runtime) data_events = [True, False, True]"
    by (simp add: data_events_def json_object_event_def rt sample_trim sample_JSON_parse_facts
        sample_messages_not_empty)
  have non: "map (not_json_event sample_runtime) data_events = [False, True, False]"
    by (simp add: data_events_def not_json_event_def rt sample_trim sample_JSON_parse_facts
        sample_messages_not_empty)
  have e1: "length data_events = 3" by (simp add: data_events_def)
  have e2: "length (filter (json_object_event sample_runtime) data_events) = 2"
    using obj by (simp add: data_events_def)
  have e3: "\<forall>ev \<in> set data_events. json_object_event sample_runtime ev \<or> not_json_event sample_runtime ev"
    using obj non by (simp add: data_events_def)
  have e4: "\<forall>ev \<in> set data_events. json_object_event sample_runtime ev \<longrightarrow> valid_time (timestamp ev)"
    by (simp add: data_events_def valid_time_def)
  have o: "[started_enriched, status_enriched]
      = map (enrich_event sample_runtime data_payload) (filter (json_object_event sample_runtime) data_events)"
    using obj
    by (simp add: data_events_def enrich_event_def rt sample_trim sample_JSON_parse_facts sample_times
        sample_enrich)
  have recs: "records sample_batch = [control_record, data_record]"
    by (simp add: sample_batch_def)
  have ids: "recordId control_record = ''rec-1''" "recordId data_record = ''rec-2''"
    by (simp_all add: control_record_def data_record_def)
  note batch = control_and_data_batch [OF c1 c2 c3 d1 d2 d3 d4 e1 e2 e3 e4 o, of sample_batch]
  have lines: "split_lines (fromBase64 (encodeRecords sample_runtime [started_enriched, status_enriched]))
      = map (JSON_stringify (number_toString sample_runtime)) [started_enriched, status_enriched]"
    by (rule batch [THEN conjunct2, THEN conjunct2, THEN conjunct2, THEN conjunct2, THEN conjunct1,
          THEN mp, OF sample_numbers_no_lf])
  have run: "firehose_handler sample_runtime sample_batch
     = [\<lparr>recordId = recordId control_record, data = data control_record, result = Dropped\<rparr>,
        \<lparr>recordId = recordId data_record,
          data = encodeRecords sample_runtime [started_enriched, status_enriched], result = Ok\<rparr>]"
    by (rule batch [THEN conjunct2, THEN conjunct2, THEN conjunct2, THEN conjunct2, THEN conjunct2,
          THEN conjunct1, THEN mp, OF recs])
  show ?thesis
    unfolding run lines ids sample_number_toString by (simp only: list.map sample_lines simp_thms)
qed

subsection \<open>Reading an \<open>Ok\<close> record back\<close>




end
